theory Spec2Isabelle
  imports Complex_Main
begin

section \<open>JavaScript values\<close>

text \<open>
  The client is TypeScript in Vue single-file components; at run time its data are
  JavaScript values. A string is its sequence of UTF-16 code units, so that the Chinese
  literals of the source and the white space that \<^verbatim>\<open>trim\<close> removes are exact.
\<close>

type_synonym jstring = "nat list"

definition asc :: "string \<Rightarrow> jstring" where
  "asc s = map of_char s"

text \<open>
  Numbers are only carried around (retrieval scores); no arithmetic is done on them.
  An object is its list of own properties in insertion order; the object literals of the
  source and parsed JSON have no repeated key.
\<close>

datatype jsval =
    Undefined
  | Null
  | Bool bool
  | Num real
  | Str jstring
  | Arr "jsval list"
  | Obj "(string \<times> jsval) list"

datatype error = TypeError | SyntaxError | NetworkError | ApiError | SecurityError

fun truthy :: "jsval \<Rightarrow> bool" where
  "truthy Undefined = False"
| "truthy Null = False"
| "truthy (Bool b) = b"
| "truthy (Num n) = (n \<noteq> 0)"
| "truthy (Str s) = (s \<noteq> [])"
| "truthy (Arr xs) = True"
| "truthy (Obj kvs) = True"

definition nullish :: "jsval \<Rightarrow> bool" where
  "nullish v = (v = Undefined \<or> v = Null)"

text \<open>
  \<^verbatim>\<open>v.k\<close> on a value that is neither null nor undefined. Methods inherited from a prototype
  are functions, which are no data here; the source reads only data properties this way.
\<close>

fun property :: "jsval \<Rightarrow> string \<Rightarrow> jsval" where
  "property (Obj kvs) k = (case map_of kvs k of Some v \<Rightarrow> v | None \<Rightarrow> Undefined)"
| "property (Arr xs) k = (if k = ''length'' then Num (of_nat (length xs)) else Undefined)"
| "property (Str s) k = (if k = ''length'' then Num (of_nat (length s)) else Undefined)"
| "property v k = Undefined"

text \<open>\<^verbatim>\<open>v.k\<close> in general: reading a property of null or undefined raises a TypeError.\<close>

definition getProp :: "jsval \<Rightarrow> string \<Rightarrow> error + jsval" where
  "getProp v k = (if nullish v then Inl TypeError else Inr (property v k))"

text \<open>\<^verbatim>\<open>v?.k\<close> and \<^verbatim>\<open>a || b\<close>.\<close>

definition optChain :: "jsval \<Rightarrow> string \<Rightarrow> jsval" where
  "optChain v k = (if nullish v then Undefined else property v k)"

definition orElse :: "jsval \<Rightarrow> jsval \<Rightarrow> jsval" where
  "orElse a b = (if truthy a then a else b)"

text \<open>
  \<^verbatim>\<open>xs.push(m)\<close>: appends to an array; on anything else there is no such method
  (or no property at all) and the call raises a TypeError.
\<close>

fun push :: "jsval \<Rightarrow> jsval \<Rightarrow> error + jsval" where
  "push (Arr xs) m = Inr (Arr (xs @ [m]))"
| "push v m = Inl TypeError"

text \<open>\<^verbatim>\<open>Array.isArray(v) && v.length > 0\<close>.\<close>

fun nonEmptyArray :: "jsval \<Rightarrow> bool" where
  "nonEmptyArray (Arr xs) = (0 < length xs)"
| "nonEmptyArray v = False"

text \<open>
  \<^verbatim>\<open>String.prototype.trim\<close> strips the code units of WhiteSpace and LineTerminator
  from both ends.
\<close>

definition isWhiteSpace :: "nat \<Rightarrow> bool" where
  "isWhiteSpace c =
     (c \<in> {9, 10, 11, 12, 13, 32, 160, 5760, 8232, 8233, 8239, 8287, 12288, 65279}
      \<or> (8192 \<le> c \<and> c \<le> 8202))"

definition trim :: "jstring \<Rightarrow> jstring" where
  "trim s = rev (dropWhile isWhiteSpace (rev (dropWhile isWhiteSpace s)))"

text \<open>\<^verbatim>\<open>text.split('?')[0]\<close>: the part of the text before its first question mark.\<close>

definition beforeQuestionMark :: "jstring \<Rightarrow> jstring" where
  "beforeQuestionMark s = takeWhile (\<lambda>c. c \<noteq> 63) s"

section \<open>The browser: JSON, local storage, the network\<close>

text \<open>
  \<^verbatim>\<open>JSON.parse\<close> and \<^verbatim>\<open>JSON.stringify\<close> belong to the runtime, not to the repository:
  they are parameters. \<^verbatim>\<open>JSON.parse\<close> raises a SyntaxError on text that is not JSON
  (\<open>None\<close>).
\<close>

record runtime =
  JSON_parse :: "jstring \<Rightarrow> jsval option"
  JSON_stringify :: "jsval \<Rightarrow> jstring"

text \<open>
  \<^verbatim>\<open>localStorage\<close>. When the browser denies storage, every access raises; the
  source never catches that.
\<close>

record storage =
  available :: bool
  items :: "string \<rightharpoonup> jstring"

definition getItem :: "storage \<Rightarrow> string \<Rightarrow> error + jstring option" where
  "getItem st k = (if available st then Inr (items st k) else Inl SecurityError)"

definition setItem :: "storage \<Rightarrow> string \<Rightarrow> jstring \<Rightarrow> error + storage" where
  "setItem st k v =
     (if available st then Inr (st\<lparr>items := (items st)(k \<mapsto> v)\<rparr>) else Inl SecurityError)"

definition removeItem :: "storage \<Rightarrow> string \<Rightarrow> error + storage" where
  "removeItem st k =
     (if available st then Inr (st\<lparr>items := (items st)(k := None)\<rparr>) else Inl SecurityError)"

text \<open>
  What \<^verbatim>\<open>fetch\<close> settles with: it rejects (no connection), or it resolves with a
  response whose \<^verbatim>\<open>ok\<close> flag says whether the status is 2xx and whose \<^verbatim>\<open>json()\<close>
  resolves with the parsed body, or rejects with a SyntaxError when the body is no JSON
  (\<open>None\<close>). A fetch that never settles is no value of this type: the code after the
  \<^verbatim>\<open>await\<close> then simply never runs.
\<close>

datatype response = Response (ok: bool) (json: "jsval option")

datatype fetched = Failed | Resolved response

section \<open>The API client (src/api/client.ts)\<close>

text \<open>
  \<^verbatim>\<open>api.query\<close>: every failure is logged and thrown again to the caller.
\<close>

fun api_query :: "fetched \<Rightarrow> error + jsval" where
  "api_query Failed = Inl NetworkError"
| "api_query (Resolved r) =
     (if \<not> ok r then Inl ApiError
      else case json r of None \<Rightarrow> Inl SyntaxError | Some v \<Rightarrow> Inr v)"

text \<open>\<^verbatim>\<open>api.healthCheck\<close>: the response's \<^verbatim>\<open>ok\<close> flag, \<^verbatim>\<open>false\<close> when fetch rejects.\<close>

fun api_healthCheck :: "fetched \<Rightarrow> bool" where
  "api_healthCheck Failed = False"
| "api_healthCheck (Resolved r) = ok r"

section \<open>Conversation state and the outcome of a call\<close>

text \<open>
  Both chat components hold the same three refs. \<^verbatim>\<open>messages.value\<close> is whatever
  was last assigned to it: the TypeScript type \<^verbatim>\<open>Message[]\<close> is erased, and
  \<^verbatim>\<open>JSON.parse\<close> returns any value.
\<close>

record chat =
  messages :: jsval
  inputText :: jstring
  loading :: bool

text \<open>
  \<^verbatim>\<open>sendMessage\<close> is an async function with one \<^verbatim>\<open>await\<close>. A call runs to that
  point (\<open>Awaiting\<close>, with the question its continuation has captured), or returns at the
  guard (\<open>Ignored\<close>), or ends before any request is made. When the fetch settles, the
  continuation runs to the end. \<open>Throws\<close> is an exception leaving the function (for an
  async function: its promise rejects), with the state as the statements before it left it.
\<close>

datatype 'w outcome =
    Ignored 'w
  | Awaiting jstring 'w
  | Returns 'w
  | Throws error 'w

fun state_of :: "'w outcome \<Rightarrow> 'w" where
  "state_of (Ignored w) = w"
| "state_of (Awaiting q w) = w"
| "state_of (Returns w) = w"
| "state_of (Throws e w) = w"

definition userMessage :: "jstring \<Rightarrow> jstring \<Rightarrow> jsval" where
  "userMessage text now =
     Obj [(''role'', Str (asc ''user'')), (''content'', Str text), (''timestamp'', Str now)]"

section \<open>ChatInterface.vue\<close>

text \<open>The greeting: "Hello! I am the RAG assistant ... What would you like to know?".\<close>

definition CI_greeting :: jstring where
  "CI_greeting =
    [24744, 22909, 65281, 25105, 26159, 82, 65, 71, 26234, 33021, 21161, 25163, 65292, 21487,
     20197, 24110, 21161, 24744, 35299, 31572, 31639, 27861, 30456, 20851, 30340, 38382, 39064, 12290,
     35831, 38382, 24744, 24819, 20102, 35299, 20160, 20040, 65311]"

text \<open>The apology: "Sorry, an error occurred while handling your request. Please retry later.".\<close>

definition apology :: jstring where
  "apology =
    [25265, 27465, 65292, 22788, 29702, 24744, 30340, 35831, 27714, 26102, 20986, 29616, 20102, 38169,
     35823, 12290, 35831, 31245, 21518, 20877, 35797, 12290]"

text \<open>
  \<^verbatim>\<open>initialMessages\<close> is built once, when the component is set up; \<open>created\<close> is
  that instant (\<^verbatim>\<open>new Date().toISOString()\<close>).
\<close>

record chatInterface = chat +
  created :: jstring

definition initialMessages :: "jstring \<Rightarrow> jsval list" where
  "initialMessages t0 =
     [Obj [(''role'', Str (asc ''assistant'')), (''content'', Str CI_greeting),
           (''timestamp'', Str t0)]]"

definition CI_setup :: "jstring \<Rightarrow> chatInterface" where
  "CI_setup t0 = \<lparr>messages = Arr [], inputText = [], loading = False, created = t0\<rparr>"

text \<open>
  \<^verbatim>\<open>loadHistory\<close>: \<^verbatim>\<open>if (saved)\<close> holds for a stored text that is not empty; what
  it parses to becomes the conversation, whatever it is.
\<close>

definition CI_loadHistory ::
  "runtime \<Rightarrow> chatInterface \<times> storage \<Rightarrow> error + chatInterface" where
  "CI_loadHistory rt w =
     (let (c, st) = w in
      case getItem st ''chat_history'' of
        Inl e \<Rightarrow> Inl e
      | Inr None \<Rightarrow> Inr (c\<lparr>messages := Arr (initialMessages (created c))\<rparr>)
      | Inr (Some saved) \<Rightarrow>
          (if saved \<noteq> [] then
             (case JSON_parse rt saved of
                Some v \<Rightarrow> Inr (c\<lparr>messages := v\<rparr>)
              | None \<Rightarrow> Inr (c\<lparr>messages := Arr (initialMessages (created c))\<rparr>))
           else Inr (c\<lparr>messages := Arr (initialMessages (created c))\<rparr>)))"

definition CI_saveHistory :: "runtime \<Rightarrow> chatInterface \<times> storage \<Rightarrow> error + storage" where
  "CI_saveHistory rt w =
     (let (c, st) = w in setItem st ''chat_history'' (JSON_stringify rt (messages c)))"

text \<open>The object literal \<^verbatim>\<open>assistantMessage\<close>; its first read raises when the payload is null.\<close>

definition CI_assistantMessage :: "jsval \<Rightarrow> jstring \<Rightarrow> error + jsval" where
  "CI_assistantMessage response now =
     (case getProp response ''response'' of
        Inl e \<Rightarrow> Inl e
      | Inr content \<Rightarrow>
          Inr (Obj [(''role'', Str (asc ''assistant'')),
                    (''content'', content),
                    (''timestamp'', orElse (property response ''timestamp'') (Str now)),
                    (''retrievalContext'',
                       Obj [(''knowledge'',
                               orElse (optChain (property response ''retrieval_context'') ''knowledge'')
                                 (Arr [])),
                            (''memory'',
                               orElse (optChain (property response ''retrieval_context'') ''memory'')
                                 (Arr [])),
                            (''subQuestions'',
                               orElse (property response ''sub_questions'') (Arr []))])]))"

definition errorMessage :: "jstring \<Rightarrow> jsval" where
  "errorMessage now =
     Obj [(''role'', Str (asc ''assistant'')),
          (''content'', Str apology),
          (''timestamp'', Str now),
          (''retrievalContext'',
             Obj [(''knowledge'', Arr []), (''memory'', Arr []), (''subQuestions'', Arr [])])]"

text \<open>
  The \<^verbatim>\<open>finally\<close> block. \<open>pending\<close> is the exception on its way out of the
  \<^verbatim>\<open>catch\<close> block, if any; one raised here replaces it.
\<close>

definition CI_finally ::
  "runtime \<Rightarrow> error option \<Rightarrow> chatInterface \<times> storage \<Rightarrow> (chatInterface \<times> storage) outcome" where
  "CI_finally rt pending w =
     (let (c, st) = w; c1 = c\<lparr>loading := False\<rparr> in
      case CI_saveHistory rt (c1, st) of
        Inl e \<Rightarrow> Throws e (c1, st)
      | Inr st1 \<Rightarrow>
          (case pending of None \<Rightarrow> Returns (c1, st1) | Some e \<Rightarrow> Throws e (c1, st1)))"

text \<open>The \<^verbatim>\<open>catch\<close> block followed by \<^verbatim>\<open>finally\<close>.\<close>

definition CI_catch ::
  "runtime \<Rightarrow> jstring \<Rightarrow> chatInterface \<times> storage \<Rightarrow> (chatInterface \<times> storage) outcome" where
  "CI_catch rt now w =
     (let (c, st) = w in
      case push (messages c) (errorMessage now) of
        Inl e \<Rightarrow> CI_finally rt (Some e) (c, st)
      | Inr ms \<Rightarrow> CI_finally rt None (c\<lparr>messages := ms\<rparr>, st))"

text \<open>
  \<^verbatim>\<open>sendMessage\<close> up to \<^verbatim>\<open>await api.query(...)\<close>. The argument of the query reads
  \<^verbatim>\<open>session_id\<close> from storage inside the \<^verbatim>\<open>try\<close>.
\<close>

definition CI_sendMessage ::
  "runtime \<Rightarrow> jstring \<Rightarrow> chatInterface \<times> storage \<Rightarrow> (chatInterface \<times> storage) outcome" where
  "CI_sendMessage rt now w =
     (let (c, st) = w; text = trim (inputText c) in
      if text = [] \<or> loading c then Ignored w
      else
        case push (messages c) (userMessage text now) of
          Inl e \<Rightarrow> Throws e w
        | Inr ms \<Rightarrow>
            (let c1 = c\<lparr>messages := ms, inputText := []\<rparr> in
             case CI_saveHistory rt (c1, st) of
               Inl e \<Rightarrow> Throws e (c1, st)
             | Inr st1 \<Rightarrow>
                 (let c2 = c1\<lparr>loading := True\<rparr> in
                  case getItem st1 ''session_id'' of
                    Inl e \<Rightarrow> CI_catch rt now (c2, st1)
                  | Inr sid \<Rightarrow> Awaiting text (c2, st1))))"

text \<open>\<^verbatim>\<open>sendMessage\<close> from the point where the awaited query has settled.\<close>

definition CI_resume ::
  "runtime \<Rightarrow> jstring \<Rightarrow> fetched \<Rightarrow> chatInterface \<times> storage \<Rightarrow> (chatInterface \<times> storage) outcome" where
  "CI_resume rt now f w =
     (let (c, st) = w in
      case api_query f of
        Inl e \<Rightarrow> CI_catch rt now w
      | Inr response \<Rightarrow>
          (case CI_assistantMessage response now of
             Inl e \<Rightarrow> CI_catch rt now w
           | Inr m \<Rightarrow>
               (case push (messages c) m of
                  Inl e \<Rightarrow> CI_catch rt now w
                | Inr ms \<Rightarrow> CI_finally rt None (c\<lparr>messages := ms\<rparr>, st))))"

text \<open>\<^verbatim>\<open>clearChat\<close>; \<open>confirmed\<close> is the user's answer to the confirm dialog.\<close>

definition CI_clearChat ::
  "bool \<Rightarrow> chatInterface \<times> storage \<Rightarrow> (chatInterface \<times> storage) outcome" where
  "CI_clearChat confirmed w =
     (let (c, st) = w in
      if confirmed then
        (let c1 = c\<lparr>messages := Arr (initialMessages (created c))\<rparr> in
         case removeItem st ''chat_history'' of
           Inl e \<Rightarrow> Throws e (c1, st)
         | Inr st1 \<Rightarrow> Returns (c1, st1))
      else Returns w)"

text \<open>
  The \<^verbatim>\<open>onMounted\<close> hook: the history is loaded, and a session id (\<open>ms\<close> is
  \<^verbatim>\<open>Date.now().toString()\<close>) is stored unless there is one. The health check made here
  is only logged.
\<close>

definition CI_onMounted ::
  "runtime \<Rightarrow> jstring \<Rightarrow> chatInterface \<times> storage \<Rightarrow> (chatInterface \<times> storage) outcome" where
  "CI_onMounted rt ms w =
     (let (c, st) = w in
      case CI_loadHistory rt w of
        Inl e \<Rightarrow> Throws e w
      | Inr c1 \<Rightarrow>
          (case getItem st ''session_id'' of
             Inl e \<Rightarrow> Throws e (c1, st)
           | Inr sid \<Rightarrow>
               (if sid = None \<or> sid = Some [] then
                  (case setItem st ''session_id'' ms of
                     Inl e \<Rightarrow> Throws e (c1, st)
                   | Inr st1 \<Rightarrow> Returns (c1, st1))
                else Returns (c1, st))))"

section \<open>App.vue\<close>

datatype status = Checking | Connected | Disconnected

record app = chat +
  connectionStatus :: status
  userId :: jstring

text \<open>The greeting of this component ends differently: "... How can I help you?".\<close>

definition App_greeting :: jstring where
  "App_greeting =
    [24744, 22909, 65281, 25105, 26159, 82, 65, 71, 26234, 33021, 21161, 25163, 65292, 21487,
     20197, 24110, 21161, 24744, 35299, 31572, 31639, 27861, 30456, 20851, 30340, 38382, 39064, 12290,
     26377, 20160, 20040, 21487, 20197, 24110, 24744, 30340, 65311]"

definition App_greetingMessage :: "jstring \<Rightarrow> jsval" where
  "App_greetingMessage now =
     Obj [(''role'', Str (asc ''assistant'')), (''content'', Str App_greeting),
          (''timestamp'', Str now)]"

text \<open>
  The refs as the script creates them; \<^verbatim>\<open>userId\<close> is
  \<^verbatim>\<open>localStorage.getItem('user_id') || ''\<close>.
\<close>

definition App_setup :: "jstring \<Rightarrow> storage \<Rightarrow> error + app" where
  "App_setup t0 st =
     (case getItem st ''user_id'' of
        Inl e \<Rightarrow> Inl e
      | Inr saved \<Rightarrow>
          Inr \<lparr>messages = Arr [App_greetingMessage t0], inputText = [], loading = False,
               connectionStatus = Disconnected,
               userId = (case saved of Some s \<Rightarrow> s | None \<Rightarrow> [])\<rparr>)"

text \<open>
  \<^verbatim>\<open>loadHistory\<close>: only a non-empty array replaces the conversation; a parse error
  is ignored.
\<close>

definition App_loadHistory :: "runtime \<Rightarrow> app \<times> storage \<Rightarrow> error + app" where
  "App_loadHistory rt w =
     (let (a, st) = w in
      case getItem st ''chat_history'' of
        Inl e \<Rightarrow> Inl e
      | Inr None \<Rightarrow> Inr a
      | Inr (Some saved) \<Rightarrow>
          (if saved \<noteq> [] then
             (case JSON_parse rt saved of
                Some history \<Rightarrow>
                  (if nonEmptyArray history then Inr (a\<lparr>messages := history\<rparr>) else Inr a)
              | None \<Rightarrow> Inr a)
           else Inr a))"

definition App_saveHistory :: "runtime \<Rightarrow> app \<times> storage \<Rightarrow> error + storage" where
  "App_saveHistory rt w =
     (let (a, st) = w in setItem st ''chat_history'' (JSON_stringify rt (messages a)))"

definition App_assistantMessage :: "jsval \<Rightarrow> jstring \<Rightarrow> error + jsval" where
  "App_assistantMessage data now =
     (case getProp data ''response'' of
        Inl e \<Rightarrow> Inl e
      | Inr content \<Rightarrow>
          Inr (Obj [(''role'', Str (asc ''assistant'')),
                    (''content'', content),
                    (''timestamp'', orElse (property data ''timestamp'') (Str now)),
                    (''context'',
                       Obj [(''knowledge'',
                               orElse (optChain (property data ''retrieval_context'') ''knowledge'')
                                 (Arr [])),
                            (''memory'',
                               orElse (optChain (property data ''retrieval_context'') ''memory'')
                                 (Arr [])),
                            (''subQuestions'',
                               orElse (property data ''sub_questions'') (Arr []))])]))"

text \<open>
  The answer the \<^verbatim>\<open>catch\<close> block makes up ("mock data"): a template around the
  question, one knowledge entry, one memory entity and three sub-questions built from the
  question up to its first question mark.
\<close>

definition mock_before :: jstring where
  "mock_before =
    [20851, 20110, 34]"

definition mock_after :: jstring where
  "mock_after =
    [34, 65292, 25105, 20026, 24744, 25972, 29702, 20102, 20197, 19979, 20449, 24687, 65306, 10,
     10, 42, 42, 26680, 24515, 27010, 24565, 58, 42, 42, 10, 75, 77, 80,
     31639, 27861, 26159, 19968, 31181, 39640, 25928, 30340, 23383, 31526, 20018, 21305, 37197, 31639,
     27861, 65292, 36890, 36807, 39044, 22788, 29702, 27169, 24335, 20018, 36991, 20813, 19981, 24517,
     35201, 30340, 22238, 28335, 12290, 10, 10, 42, 42, 20027, 35201, 29305, 28857, 58,
     42, 42, 10, 45, 32, 26102, 38388, 22797, 26434, 24230, 58, 32, 79, 40,
     110, 43, 109, 41, 10, 45, 32, 31354, 38388, 22797, 26434, 24230, 58, 32,
     79, 40, 109, 41, 10, 45, 32, 36991, 20813, 20027, 20018, 25351, 38024, 22238,
     28335, 10, 10, 42, 42, 23454, 29616, 27493, 39588, 58, 42, 42, 10, 49,
     46, 32, 26500, 24314, 37096, 20998, 21305, 37197, 34920, 40, 110, 101, 120, 116,
     25968, 32452, 41, 10, 50, 46, 32, 21452, 25351, 38024, 21305, 37197, 20027, 20018,
     21644, 27169, 24335, 20018, 10, 51, 46, 32, 22833, 36133, 26102, 26681, 25454, 110,
     101, 120, 116, 25968, 32452, 36339, 36716, 10, 10, 24744, 36824, 24819, 20102, 35299,
     36825, 20010, 31639, 27861, 30340, 21738, 20123, 26041, 38754, 65311]"

definition mock_knowledge :: jstring where
  "mock_knowledge =
    [75, 77, 80, 31639, 27861, 26159, 19968, 31181, 39640, 25928, 30340, 23383, 31526, 20018,
     21305, 37197, 31639, 27861, 65292, 26102, 38388, 22797, 26434, 24230, 20026, 79, 40, 110,
     43, 109, 41]"

definition mock_entity :: jstring where
  "mock_entity =
    [75, 77, 80, 31639, 27861]"

definition mock_entity_type :: jstring where
  "mock_entity_type =
    [31639, 27861]"

definition mock_description :: jstring where
  "mock_description =
    [23383, 31526, 20018, 21305, 37197, 31639, 27861]"

definition zhege :: jstring where
  "zhege =
    [36825, 20010]"

definition ta :: jstring where
  "ta =
    [23427]"

definition sub1_before :: jstring where
  "sub1_before =
    [20160, 20040, 26159]"

definition sub1_after :: jstring where
  "sub1_after =
    [30340, 22522, 26412, 21407, 29702, 65311]"

definition sub2_before :: jstring where
  "sub2_before =
    [22914, 20309, 23454, 29616]"

definition sub2_after :: jstring where
  "sub2_after =
    [65311]"

definition sub3_after :: jstring where
  "sub3_after =
    [26377, 20160, 20040, 24212, 29992, 22330, 26223, 65311]"

definition subject :: "jstring \<Rightarrow> jstring \<Rightarrow> jstring" where
  "subject text dflt = (if beforeQuestionMark text \<noteq> [] then beforeQuestionMark text else dflt)"

definition mockMessage :: "jstring \<Rightarrow> jstring \<Rightarrow> jsval" where
  "mockMessage text now =
     Obj [(''role'', Str (asc ''assistant'')),
          (''content'', Str (mock_before @ text @ mock_after)),
          (''timestamp'', Str now),
          (''context'',
             Obj [(''knowledge'',
                     Arr [Obj [(''type'', Str (asc ''textbook'')),
                               (''content'', Str mock_knowledge),
                               (''score'', Num 0.95)]]),
                  (''memory'',
                     Arr [Obj [(''entity'', Str mock_entity),
                               (''type'', Str mock_entity_type),
                               (''properties'', Obj [(''description'', Str mock_description)]),
                               (''score'', Num 0.88)]]),
                  (''subQuestions'',
                     Arr [Str (sub1_before @ subject text zhege @ sub1_after),
                          Str (sub2_before @ subject text zhege @ sub2_after),
                          Str (subject text ta @ sub3_after)])])]"

definition App_finally ::
  "runtime \<Rightarrow> error option \<Rightarrow> app \<times> storage \<Rightarrow> (app \<times> storage) outcome" where
  "App_finally rt pending w =
     (let (a, st) = w; a1 = a\<lparr>loading := False\<rparr> in
      case App_saveHistory rt (a1, st) of
        Inl e \<Rightarrow> Throws e (a1, st)
      | Inr st1 \<Rightarrow>
          (case pending of None \<Rightarrow> Returns (a1, st1) | Some e \<Rightarrow> Throws e (a1, st1)))"

definition App_catch ::
  "runtime \<Rightarrow> jstring \<Rightarrow> jstring \<Rightarrow> app \<times> storage \<Rightarrow> (app \<times> storage) outcome" where
  "App_catch rt now text w =
     (let (a, st) = w in
      case push (messages a) (mockMessage text now) of
        Inl e \<Rightarrow> App_finally rt (Some e) (a, st)
      | Inr ms \<Rightarrow>
          App_finally rt None (a\<lparr>messages := ms, connectionStatus := Disconnected\<rparr>, st))"

text \<open>\<^verbatim>\<open>sendMessage\<close> up to \<^verbatim>\<open>await fetch(...)\<close>; nothing is saved on this side.\<close>

definition App_sendMessage ::
  "jstring \<Rightarrow> app \<times> storage \<Rightarrow> (app \<times> storage) outcome" where
  "App_sendMessage now w =
     (let (a, st) = w; text = trim (inputText a) in
      if text = [] \<or> loading a then Ignored w
      else
        case push (messages a) (userMessage text now) of
          Inl e \<Rightarrow> Throws e w
        | Inr ms \<Rightarrow> Awaiting text (a\<lparr>messages := ms, inputText := [], loading := True\<rparr>, st))"

text \<open>
  \<^verbatim>\<open>sendMessage\<close> from the point where the fetch has settled; \<open>text\<close> is the question
  the continuation has captured.
\<close>

definition App_resume ::
  "runtime \<Rightarrow> jstring \<Rightarrow> jstring \<Rightarrow> fetched \<Rightarrow> app \<times> storage \<Rightarrow> (app \<times> storage) outcome" where
  "App_resume rt now text f w =
     (let (a, st) = w in
      case f of
        Failed \<Rightarrow> App_catch rt now text w
      | Resolved r \<Rightarrow>
          (if ok r then
             (case json r of
                None \<Rightarrow> App_catch rt now text w
              | Some data \<Rightarrow>
                  (case App_assistantMessage data now of
                     Inl e \<Rightarrow> App_catch rt now text w
                   | Inr m \<Rightarrow>
                       (case push (messages a) m of
                          Inl e \<Rightarrow> App_catch rt now text w
                        | Inr ms \<Rightarrow>
                            App_finally rt None
                              (a\<lparr>messages := ms, connectionStatus := Connected\<rparr>, st))))
           else App_catch rt now text w))"

definition App_clearChat ::
  "bool \<Rightarrow> jstring \<Rightarrow> app \<times> storage \<Rightarrow> (app \<times> storage) outcome" where
  "App_clearChat confirmed now w =
     (let (a, st) = w in
      if confirmed then
        (let a1 = a\<lparr>messages := Arr [App_greetingMessage now]\<rparr> in
         case removeItem st ''chat_history'' of
           Inl e \<Rightarrow> Throws e (a1, st)
         | Inr st1 \<Rightarrow> Returns (a1, st1))
      else Returns w)"

text \<open>\<^verbatim>\<open>checkConnection\<close>, once its fetch of \<^verbatim>\<open>/health\<close> has settled.\<close>

fun App_checkConnection :: "fetched \<Rightarrow> app \<Rightarrow> app" where
  "App_checkConnection Failed a = a\<lparr>connectionStatus := Disconnected\<rparr>"
| "App_checkConnection (Resolved r) a =
     (if ok r then a\<lparr>connectionStatus := Connected\<rparr> else a\<lparr>connectionStatus := Disconnected\<rparr>)"

definition App_saveUserId :: "app \<times> storage \<Rightarrow> error + storage" where
  "App_saveUserId w = (let (a, st) = w in setItem st ''user_id'' (userId a))"

text \<open>
  \<^verbatim>\<open>generateUserId\<close>; \<open>rnd\<close> is \<^verbatim>\<open>Math.random().toString(36).substr(2, 9)\<close>.
\<close>

definition App_generateUserId :: "jstring \<Rightarrow> app \<times> storage \<Rightarrow> (app \<times> storage) outcome" where
  "App_generateUserId rnd w =
     (let (a, st) = w; a1 = a\<lparr>userId := asc ''user_'' @ rnd\<rparr> in
      case App_saveUserId (a1, st) of
        Inl e \<Rightarrow> Throws e (a1, st)
      | Inr st1 \<Rightarrow> Returns (a1, st1))"

section \<open>HomeView.vue\<close>

text \<open>
  The view around \<^verbatim>\<open>ChatInterface\<close>. Of its refs, the user id and the system status
  are kept; the status text and the message count only feed the template.
\<close>

record homeView =
  hv_userId :: jstring
  systemStatus :: status

definition HV_setup :: "storage \<Rightarrow> error + homeView" where
  "HV_setup st =
     (case getItem st ''user_id'' of
        Inl e \<Rightarrow> Inl e
      | Inr saved \<Rightarrow>
          Inr \<lparr>hv_userId = (case saved of Some s \<Rightarrow> s | None \<Rightarrow> []),
               systemStatus = Checking\<rparr>)"

definition HV_saveUserId :: "homeView \<times> storage \<Rightarrow> error + storage" where
  "HV_saveUserId w = (let (h, st) = w in setItem st ''user_id'' (hv_userId h))"

definition HV_generateUserId ::
  "jstring \<Rightarrow> homeView \<times> storage \<Rightarrow> (homeView \<times> storage) outcome" where
  "HV_generateUserId rnd w =
     (let (h, st) = w; h1 = h\<lparr>hv_userId := asc ''user_'' @ rnd\<rparr> in
      case HV_saveUserId (h1, st) of
        Inl e \<Rightarrow> Throws e (h1, st)
      | Inr st1 \<Rightarrow> Returns (h1, st1))"

text \<open>
  \<^verbatim>\<open>refreshStatus\<close>, once the health check has settled. \<^verbatim>\<open>api.healthCheck()\<close>
  resolves with a boolean, of which the code reads \<^verbatim>\<open>.status\<close> and compares it with
  \<^verbatim>\<open>'healthy'\<close>; an exception would end in the \<^verbatim>\<open>catch\<close> block.
\<close>

definition HV_refreshStatus :: "fetched \<Rightarrow> homeView \<Rightarrow> homeView" where
  "HV_refreshStatus f h =
     (let h1 = h\<lparr>systemStatus := Checking\<rparr>; health = Bool (api_healthCheck f) in
      case getProp health ''status'' of
        Inl e \<Rightarrow> h1\<lparr>systemStatus := Disconnected\<rparr>
      | Inr s \<Rightarrow>
          (if s = Str (asc ''healthy'') then h1\<lparr>systemStatus := Connected\<rparr>
           else h1\<lparr>systemStatus := Disconnected\<rparr>))"

section \<open>Failed queries\<close>

text \<open>
  The ways a query fails: no connection, a status outside 2xx, or a body that is no
  JSON text.
\<close>

fun failure :: "fetched \<Rightarrow> bool" where
  "failure Failed = True"
| "failure (Resolved r) = (\<not> ok r \<or> json r = None)"

section \<open>Lists the runtime's JSON keeps\<close>


section \<open>Timers and requests in flight\<close>

text \<open>
  The batch runners start timers, and a request that was sent settles at some later time
  or never; both are events of the page's one thread. \<open>network\<close> says, for a request sent
  at a time for a question, after how many milliseconds it settles and with what
  (\<open>None\<close>: never). \<^verbatim>\<open>new Date().toISOString()\<close> at a time of the clock is a
  parameter as well.
\<close>

type_synonym network = "nat \<Rightarrow> jstring \<Rightarrow> (nat \<times> fetched) option"

type_synonym clockface = "nat \<Rightarrow> jstring"

datatype request = Request (question: jstring) (reply: "(nat \<times> fetched) option")

text \<open>
  What a runner uses of a chat component: putting a text into the input box, calling
  \<^verbatim>\<open>sendMessage\<close>, and the continuation of \<^verbatim>\<open>sendMessage\<close> behind its \<^verbatim>\<open>await\<close>.
\<close>

record 'w controller =
  typeIn :: "jstring \<Rightarrow> 'w \<Rightarrow> 'w"
  submit :: "jstring \<Rightarrow> 'w \<Rightarrow> 'w outcome"
  settle :: "jstring \<Rightarrow> jstring \<Rightarrow> fetched \<Rightarrow> 'w \<Rightarrow> 'w outcome"

text \<open>
  \<open>inflight\<close> holds the requests sent and not yet settled, the one that settles first in
  front. \<open>peak\<close> and \<open>calls\<close> only observe the run: the largest number of requests
  that were in flight at once, and for each call of \<^verbatim>\<open>sendMessage\<close> its time and
  whether it sent a request.
\<close>

record 'w world =
  page :: 'w
  clock :: nat
  inflight :: "request list"
  peak :: nat
  calls :: "(nat \<times> bool) list"

fun sooner :: "(nat \<times> fetched) option \<Rightarrow> (nat \<times> fetched) option \<Rightarrow> bool" where
  "sooner (Some (t, f)) (Some (u, g)) = (t < u)"
| "sooner (Some (t, f)) None = True"
| "sooner None b = False"

fun enqueue :: "request \<Rightarrow> request list \<Rightarrow> request list" where
  "enqueue r [] = [r]"
| "enqueue r (x # xs) = (if sooner (reply r) (reply x) then r # x # xs else x # enqueue r xs)"

text \<open>The continuations of the requests that settle up to time \<open>T\<close>, in that order.\<close>

fun deliver ::
  "clockface \<Rightarrow> 'w controller \<Rightarrow> nat \<Rightarrow> request list \<Rightarrow> 'w \<Rightarrow> request list \<times> 'w" where
  "deliver stamp ctl T [] w = ([], w)"
| "deliver stamp ctl T (r # rs) w =
     (case reply r of
        None \<Rightarrow> (r # rs, w)
      | Some (t, f) \<Rightarrow>
          (if t \<le> T then deliver stamp ctl T rs (state_of (settle ctl (stamp t) (question r) f w))
           else (r # rs, w)))"

definition advance :: "clockface \<Rightarrow> 'w controller \<Rightarrow> nat \<Rightarrow> 'w world \<Rightarrow> 'w world" where
  "advance stamp ctl T W =
     (let (rs, w) = deliver stamp ctl T (inflight W) (page W)
      in W\<lparr>page := w, clock := T, inflight := rs\<rparr>)"

text \<open>A call of \<^verbatim>\<open>sendMessage()\<close> from a timer, at the time of the clock.\<close>

definition invoke :: "network \<Rightarrow> clockface \<Rightarrow> 'w controller \<Rightarrow> 'w world \<Rightarrow> 'w world" where
  "invoke net stamp ctl W =
     (case submit ctl (stamp (clock W)) (page W) of
        Awaiting q w \<Rightarrow>
          (let r = Request q (case net (clock W) q of
                                None \<Rightarrow> None
                              | Some (d, f) \<Rightarrow> Some (clock W + d, f));
               rs = enqueue r (inflight W)
           in W\<lparr>page := w, inflight := rs, peak := max (peak W) (length rs),
                 calls := calls W @ [(clock W, True)]\<rparr>)
      | Ignored w \<Rightarrow> W\<lparr>page := w, calls := calls W @ [(clock W, False)]\<rparr>
      | Returns w \<Rightarrow> W\<lparr>page := w, calls := calls W @ [(clock W, False)]\<rparr>
      | Throws e w \<Rightarrow> W\<lparr>page := w, calls := calls W @ [(clock W, False)]\<rparr>)"

subsection \<open>The batch runner of App.vue\<close>

definition App_exampleQuestions :: "jstring list" where
  "App_exampleQuestions =
    [[20160, 20040, 26159, 75, 77, 80, 31639, 27861, 65311],
     [75, 77, 80, 31639, 27861, 30340, 26102, 38388, 22797, 26434, 24230, 26159, 22810, 23569,
      65311],
     [35831, 35299, 37322, 75, 77, 80, 31639, 27861, 20013, 30340, 37096, 20998, 21305, 37197,
      34920],
     [75, 77, 80, 31639, 27861, 21644, 26292, 21147, 21305, 37197, 31639, 27861, 26377, 20160,
      20040, 21306, 21035, 65311],
     [21160, 24577, 35268, 21010, 30340, 22522, 26412, 24605, 24819, 26159, 20160, 20040, 65311],
     [20160, 20040, 26159, 26368, 20248, 23376, 32467, 26500, 65311],
     [24120, 35265, 30340, 25490, 24207, 31639, 27861, 26377, 21738, 20123, 65311]]"

definition App_controller :: "runtime \<Rightarrow> (app \<times> storage) controller" where
  "App_controller rt =
     \<lparr>typeIn = (\<lambda>q (a, st). (a\<lparr>inputText := q\<rparr>, st)),
      submit = App_sendMessage,
      settle = App_resume rt\<rparr>"

text \<open>
  \<^verbatim>\<open>sendNext\<close> with the questions from \<^verbatim>\<open>index\<close> on: it fills the input box, 100 ms
  later calls \<^verbatim>\<open>sendMessage()\<close> and counts on, and 2000 ms after that runs again.
  \<^verbatim>\<open>sendMessage\<close> is async, so the call itself never throws.
\<close>

fun sendNext ::
  "network \<Rightarrow> clockface \<Rightarrow> runtime \<Rightarrow> jstring list \<Rightarrow> (app \<times> storage) world \<Rightarrow> (app \<times> storage) world" where
  "sendNext net stamp rt [] W = W"
| "sendNext net stamp rt (q # qs) W =
     (let W1 = W\<lparr>page := typeIn (App_controller rt) q (page W)\<rparr>;
          W2 = invoke net stamp (App_controller rt)
                 (advance stamp (App_controller rt) (clock W1 + 100) W1);
          W3 = advance stamp (App_controller rt) (clock W2 + 2000) W2
      in sendNext net stamp rt qs W3)"

definition loadExamples ::
  "network \<Rightarrow> clockface \<Rightarrow> runtime \<Rightarrow> (app \<times> storage) world \<Rightarrow> (app \<times> storage) world" where
  "loadExamples net stamp rt W = sendNext net stamp rt App_exampleQuestions W"

subsection \<open>The batch runner of HomeView.vue\<close>

definition HV_exampleQuestions :: "jstring list" where
  "HV_exampleQuestions =
    [[20160, 20040, 26159, 75, 77, 80, 31639, 27861, 65311],
     [75, 77, 80, 31639, 27861, 30340, 26102, 38388, 22797, 26434, 24230, 26159, 22810, 23569,
      65311],
     [35831, 35299, 37322, 75, 77, 80, 31639, 27861, 20013, 30340, 37096, 20998, 21305, 37197,
      34920],
     [75, 77, 80, 31639, 27861, 21644, 26292, 21147, 21305, 37197, 31639, 27861, 26377, 20160,
      20040, 21306, 21035, 65311],
     [22914, 20309, 23454, 29616, 75, 77, 80, 31639, 27861, 30340, 110, 101, 120, 116,
      25968, 32452, 65311]]"

definition CI_controller :: "runtime \<Rightarrow> (chatInterface \<times> storage) controller" where
  "CI_controller rt =
     \<lparr>typeIn = (\<lambda>q (c, st). (c\<lparr>inputText := q\<rparr>, st)),
      submit = CI_sendMessage rt,
      settle = (\<lambda>now q. CI_resume rt now)\<rparr>"

text \<open>
  \<^verbatim>\<open>sendExampleQuestion\<close>, with the chat component mounted: the question goes into
  its textarea (the input event hands it to \<^verbatim>\<open>inputText\<close>) and its exposed
  \<^verbatim>\<open>sendMessage\<close> is called.
\<close>

definition sendExampleQuestion ::
  "network \<Rightarrow> clockface \<Rightarrow> runtime \<Rightarrow> jstring \<Rightarrow> (chatInterface \<times> storage) world
     \<Rightarrow> (chatInterface \<times> storage) world" where
  "sendExampleQuestion net stamp rt q W =
     invoke net stamp (CI_controller rt) (W\<lparr>page := typeIn (CI_controller rt) q (page W)\<rparr>)"

text \<open>
  \<^verbatim>\<open>loadExampleQuestions\<close> started at time \<open>T0\<close>: \<^verbatim>\<open>forEach\<close> sets one timer per
  question, the one of index \<open>i\<close> to \<open>i * 2000\<close> ms; they fire in that order.
\<close>

fun exampleTimers ::
  "network \<Rightarrow> clockface \<Rightarrow> runtime \<Rightarrow> nat \<Rightarrow> nat \<Rightarrow> jstring list
     \<Rightarrow> (chatInterface \<times> storage) world \<Rightarrow> (chatInterface \<times> storage) world" where
  "exampleTimers net stamp rt T0 i [] W = W"
| "exampleTimers net stamp rt T0 i (q # qs) W =
     exampleTimers net stamp rt T0 (i + 1) qs
       (sendExampleQuestion net stamp rt q (advance stamp (CI_controller rt) (T0 + i * 2000) W))"

definition loadExampleQuestions ::
  "network \<Rightarrow> clockface \<Rightarrow> runtime \<Rightarrow> (chatInterface \<times> storage) world
     \<Rightarrow> (chatInterface \<times> storage) world" where
  "loadExampleQuestions net stamp rt W =
     exampleTimers net stamp rt (clock W) 0 HV_exampleQuestions W"

subsection \<open>What the runs keep invariant\<close>

text \<open>
  \<open>lawful busy ctl\<close>: the flag \<open>busy\<close> guards the controller. A call while busy is
  ignored; a call that sends a request was made while idle and leaves the controller busy;
  every other call leaves it idle if it was; the continuation always ends idle; typing
  does not touch the flag.
\<close>

definition lawful :: "('w \<Rightarrow> bool) \<Rightarrow> 'w controller \<Rightarrow> bool" where
  "lawful busy ctl =
     ((\<forall>now w. busy w \<longrightarrow> submit ctl now w = Ignored w)
      \<and> (\<forall>now w q w'. submit ctl now w = Awaiting q w' \<longrightarrow> busy w')
      \<and> (\<forall>now w. \<not> busy w \<longrightarrow> (\<forall>q w'. submit ctl now w \<noteq> Awaiting q w') \<longrightarrow>
             \<not> busy (state_of (submit ctl now w)))
      \<and> (\<forall>now q f w. \<not> busy (state_of (settle ctl now q f w)))
      \<and> (\<forall>q w. busy (typeIn ctl q w) = busy w))"

text \<open>
  \<open>steady busy W\<close>: a request is in flight exactly when the controller is busy, and there
  never was more than one.
\<close>

definition steady :: "('w \<Rightarrow> bool) \<Rightarrow> 'w world \<Rightarrow> bool" where
  "steady busy W =
     ((inflight W = []) = (\<not> busy (page W)) \<and> length (inflight W) \<le> 1 \<and> peak W \<le> 1)"

definition App_busy :: "app \<times> storage \<Rightarrow> bool" where
  "App_busy w = loading (fst w)"

definition CI_busy :: "chatInterface \<times> storage \<Rightarrow> bool" where
  "CI_busy w = loading (fst w)"

text \<open>A page that was just opened: nothing in flight, nothing observed yet.\<close>

definition opened :: "'w \<Rightarrow> 'w world" where
  "opened w = \<lparr>page = w, clock = 0, inflight = [], peak = 0, calls = []\<rparr>"

section \<open>Sample data for the examples\<close>

text \<open>
  A moment of the clock, a storage that works and one that does not, and a short
  history with its JSON text:
  \<^verbatim>\<open>[{"role":"user","content":"hi","timestamp":"2024-01-01T00:00:00.000Z"}]\<close>.
\<close>

definition sample_time :: jstring where
  "sample_time = asc ''2024-01-01T00:00:00.000Z''"

definition empty_storage :: storage where
  "empty_storage = \<lparr>available = True, items = Map.empty\<rparr>"

definition denied_storage :: storage where
  "denied_storage = \<lparr>available = False, items = Map.empty\<rparr>"

definition sample_history :: jsval where
  "sample_history = Arr [userMessage (asc ''hi'') sample_time]"

definition sample_history_text :: jstring where
  "sample_history_text =
    [91, 123, 34, 114, 111, 108, 101, 34, 58, 34, 117, 115, 101, 114, 34, 44,
     34, 99, 111, 110, 116, 101, 110, 116, 34, 58, 34, 104, 105, 34, 44, 34,
     116, 105, 109, 101, 115, 116, 97, 109, 112, 34, 58, 34, 50, 48, 50, 52,
     45, 48, 49, 45, 48, 49, 84, 48, 48, 58, 48, 48, 58, 48, 48, 46,
     48, 48, 48, 90, 34, 125, 93]"

text \<open>
  An excerpt of the runtime's \<^verbatim>\<open>JSON.stringify\<close> and \<^verbatim>\<open>JSON.parse\<close>: the values
  the examples save, with their texts, and the texts the examples load. Of a value
  outside the table no example reads the text back; a text outside it stands for one
  that is not JSON.
\<close>

definition sample_texts :: "(jsval \<times> jstring) list" where
  "sample_texts =
     [(Arr [], asc ''[]''),
      (Obj [], asc ''{}''),
      (Arr [Num 1], asc ''[1]''),
      (sample_history, sample_history_text)]"

definition sample_runtime :: runtime where
  "sample_runtime =
     \<lparr>JSON_parse = (\<lambda>s. map_of (map (\<lambda>(v, t). (t, v)) sample_texts) s),
      JSON_stringify = (\<lambda>v. case map_of sample_texts v of Some t \<Rightarrow> t | None \<Rightarrow> asc ''null'')\<rparr>"

definition sample_clock :: clockface where
  "sample_clock t = sample_time"

definition sample_app :: app where
  "sample_app =
     \<lparr>messages = Arr [App_greetingMessage sample_time], inputText = [], loading = False,
      connectionStatus = Disconnected, userId = []\<rparr>"

definition storage_with :: "jstring \<Rightarrow> storage" where
  "storage_with s = \<lparr>available = True, items = [''chat_history'' \<mapsto> s]\<rparr>"

text \<open>A network that never answers, and one that fails every request after five seconds.\<close>

definition silent :: network where
  "silent t q = None"

definition slow :: network where
  "slow t q = Some (5000, Failed)"

section \<open>The guard of sendMessage\<close>

text \<open>
  Claim C2. A call of \<^verbatim>\<open>sendMessage\<close> whose input trims to the empty string, or that
  comes while a request is in flight (\<open>loading\<close>), returns at the guard in both chat
  components: messages, input, flag and storage are what they were, so the conversation
  has the same length and contents.
\<close>

theorem sendMessage_guard_noop:
  "(trim (inputText c) = [] \<or> loading c \<longrightarrow>
      CI_sendMessage rt now (c, st) = Ignored (c, st))
   \<and> (trim (inputText a) = [] \<or> loading a \<longrightarrow>
      App_sendMessage now (a, st') = Ignored (a, st'))"
  by (simp add: CI_sendMessage_def App_sendMessage_def)

theorem sendMessage_guard_noop_witness:
  "CI_sendMessage sample_runtime sample_time
     ((CI_setup sample_time)\<lparr>inputText := asc ''   ''\<rparr>, empty_storage)
     = Ignored ((CI_setup sample_time)\<lparr>inputText := asc ''   ''\<rparr>, empty_storage)
   \<and> App_sendMessage sample_time
     (sample_app\<lparr>inputText := asc ''hi'', loading := True\<rparr>, empty_storage)
     = Ignored (sample_app\<lparr>inputText := asc ''hi'', loading := True\<rparr>, empty_storage)"
  using sendMessage_guard_noop
    [where c = "(CI_setup sample_time)\<lparr>inputText := asc ''   ''\<rparr>"
       and a = "sample_app\<lparr>inputText := asc ''hi'', loading := True\<rparr>"
       and rt = sample_runtime and now = sample_time
       and st = empty_storage and st' = empty_storage]
  by (simp add: trim_def asc_def isWhiteSpace_def CI_setup_def)

section \<open>Health checks\<close>

text \<open>
  \<^verbatim>\<open>checkConnection\<close> of App.vue reports the service connected exactly when the
  health check got a response with a 2xx status.
\<close>

lemma App_checkConnection_iff:
  "(connectionStatus (App_checkConnection f a) = Connected) = api_healthCheck f"
  by (cases f) auto

text \<open>
  Claim C9. The claim wants \<open>Connected\<close> exactly when \<^verbatim>\<open>/health\<close> answers with a
  2xx status. \<^verbatim>\<open>refreshStatus\<close> of HomeView.vue reads \<^verbatim>\<open>.status\<close> of the boolean
  that \<^verbatim>\<open>api.healthCheck\<close> resolves with, which is undefined and never equal to
  \<^verbatim>\<open>'healthy'\<close>: whatever the health check met, the view ends disconnected.
\<close>

theorem HV_refreshStatus_never_connected:
  "systemStatus (HV_refreshStatus f h) = Disconnected"
  by (simp add: HV_refreshStatus_def getProp_def nullish_def)

section \<open>The history store\<close>

text \<open>
  Claim C7. When the persisted history does not parse, \<^verbatim>\<open>loadHistory\<close> raises nothing
  and the conversation is the one canned greeting (role assistant, the fixed text), just as
  when nothing is persisted. ChatInterface.vue assigns the greeting in its \<^verbatim>\<open>catch\<close>;
  App.vue ignores the parse error and keeps the greeting its refs were created with.
\<close>

theorem loadHistory_malformed_is_greeting:
  assumes "available st"
    and "items st ''chat_history'' = Some s"
    and "JSON_parse rt s = None"
    and "App_setup t0 st = Inr a"
  shows "CI_loadHistory rt (c, st) =
           Inr (c\<lparr>messages := Arr [Obj [(''role'', Str (asc ''assistant'')),
                                         (''content'', Str CI_greeting),
                                         (''timestamp'', Str (created c))]]\<rparr>)
         \<and> CI_loadHistory rt (c, st) =
             CI_loadHistory rt (c, st\<lparr>items := (items st)(''chat_history'' := None)\<rparr>)
         \<and> App_loadHistory rt (a, st) = Inr a
         \<and> messages a = Arr [Obj [(''role'', Str (asc ''assistant'')),
                                   (''content'', Str App_greeting),
                                   (''timestamp'', Str t0)]]
         \<and> App_loadHistory rt (a, st) =
             App_loadHistory rt (a, st\<lparr>items := (items st)(''chat_history'' := None)\<rparr>)"
  using assms
  by (auto simp add: CI_loadHistory_def App_loadHistory_def getItem_def initialMessages_def
      App_setup_def App_greetingMessage_def)

theorem loadHistory_malformed_is_greeting_witness:
  "available (storage_with (asc ''{oops''))
   \<and> items (storage_with (asc ''{oops'')) ''chat_history'' = Some (asc ''{oops'')
   \<and> JSON_parse sample_runtime (asc ''{oops'') = None
   \<and> App_setup sample_time (storage_with (asc ''{oops'')) = Inr sample_app
   \<and> CI_loadHistory sample_runtime (CI_setup sample_time, storage_with (asc ''{oops'')) =
       Inr ((CI_setup sample_time)\<lparr>messages :=
              Arr [Obj [(''role'', Str (asc ''assistant'')), (''content'', Str CI_greeting),
                        (''timestamp'', Str sample_time)]]\<rparr>)
   \<and> App_loadHistory sample_runtime (sample_app, storage_with (asc ''{oops'')) = Inr sample_app"
proof -
  have h1: "available (storage_with (asc ''{oops''))"
    by (simp add: storage_with_def)
  have h2: "items (storage_with (asc ''{oops'')) ''chat_history'' = Some (asc ''{oops'')"
    by (simp add: storage_with_def)
  have h3: "JSON_parse sample_runtime (asc ''{oops'') = None"
    by (simp add: sample_runtime_def sample_texts_def sample_history_text_def asc_def)
  have h4: "App_setup sample_time (storage_with (asc ''{oops'')) = Inr sample_app"
    by (simp add: App_setup_def getItem_def storage_with_def sample_app_def)
  from loadHistory_malformed_is_greeting [OF h1 h2 h3 h4, of "CI_setup sample_time"] h1 h2 h3 h4
  show ?thesis by (simp add: CI_setup_def)
qed

text \<open>
  App.vue installs a parsed history only when it is a non-empty array; any other value
  leaves the conversation as it is.
\<close>

lemma App_loadHistory_guard:
  assumes "available st"
    and "items st ''chat_history'' = Some s"
    and "JSON_parse rt s = Some v"
    and "\<not> nonEmptyArray v"
  shows "App_loadHistory rt (a, st) = Inr a"
  using assms by (simp add: App_loadHistory_def getItem_def)

text \<open>
  The elements of the array are not looked at: persisted as \<^verbatim>\<open>[1]\<close>, the number
  becomes the one entry of the conversation.
\<close>

lemma App_loadHistory_installs_array:
  "App_loadHistory sample_runtime (sample_app, storage_with (asc ''[1]'')) =
     Inr (sample_app\<lparr>messages := Arr [Num 1]\<rparr>)"
  by (simp add: App_loadHistory_def getItem_def storage_with_def sample_runtime_def
      sample_texts_def asc_def sample_history_text_def)

text \<open>
  Claim C10. The claim wants a persisted value that parses but is no non-empty array to
  be treated as absent. ChatInterface.vue has no such check: with the text \<^verbatim>\<open>{}\<close>
  persisted, \<^verbatim>\<open>loadHistory\<close> makes the object the conversation, and the next
  \<^verbatim>\<open>sendMessage\<close> fails with a TypeError at \<^verbatim>\<open>messages.value.push\<close>.
\<close>

theorem CI_loadHistory_installs_object:
  "CI_loadHistory sample_runtime (CI_setup sample_time, storage_with (asc ''{}'')) =
     Inr ((CI_setup sample_time)\<lparr>messages := Obj []\<rparr>)
   \<and> CI_sendMessage sample_runtime sample_time
       ((CI_setup sample_time)\<lparr>messages := Obj [], inputText := asc ''hi''\<rparr>,
        storage_with (asc ''{}'')) =
     Throws TypeError
       ((CI_setup sample_time)\<lparr>messages := Obj [], inputText := asc ''hi''\<rparr>,
        storage_with (asc ''{}''))"
  by (simp add: CI_loadHistory_def getItem_def storage_with_def sample_runtime_def
      sample_texts_def asc_def sample_history_text_def CI_sendMessage_def trim_def
      isWhiteSpace_def CI_setup_def)

text \<open>
  Claim C8. \<^verbatim>\<open>clearChat\<close>, with the dialog confirmed and storage working, leaves a
  conversation of exactly one message, the greeting, and removes the persisted history.
  A \<^verbatim>\<open>loadHistory\<close> after that gives the greeting again, in whatever component it
  runs (\<open>c'\<close>, \<open>a'\<close>: the one that was reset, or one created on a reload). In
  ChatInterface.vue it is \<^verbatim>\<open>loadHistory\<close> that assigns the greeting, whatever the
  conversation was; in App.vue \<^verbatim>\<open>loadHistory\<close> leaves the conversation alone, and a
  component created on a reload has the greeting from its setup.
\<close>

theorem clearChat_resets:
  assumes "available st"
  shows "CI_clearChat True (c, st) =
           Returns (c\<lparr>messages := Arr [Obj [(''role'', Str (asc ''assistant'')),
                                            (''content'', Str CI_greeting),
                                            (''timestamp'', Str (created c))]]\<rparr>,
                    st\<lparr>items := (items st)(''chat_history'' := None)\<rparr>)
         \<and> CI_loadHistory rt (c', st\<lparr>items := (items st)(''chat_history'' := None)\<rparr>) =
           Inr (c'\<lparr>messages := Arr [Obj [(''role'', Str (asc ''assistant'')),
                                          (''content'', Str CI_greeting),
                                          (''timestamp'', Str (created c'))]]\<rparr>)
         \<and> App_clearChat True now (a, st) =
           Returns (a\<lparr>messages := Arr [Obj [(''role'', Str (asc ''assistant'')),
                                            (''content'', Str App_greeting),
                                            (''timestamp'', Str now)]]\<rparr>,
                    st\<lparr>items := (items st)(''chat_history'' := None)\<rparr>)
         \<and> App_loadHistory rt (a', st\<lparr>items := (items st)(''chat_history'' := None)\<rparr>) =
           Inr a'
         \<and> App_setup t1 (st\<lparr>items := (items st)(''chat_history'' := None)\<rparr>) =
           Inr \<lparr>messages = Arr [Obj [(''role'', Str (asc ''assistant'')),
                                     (''content'', Str App_greeting),
                                     (''timestamp'', Str t1)]],
                inputText = [], loading = False, connectionStatus = Disconnected,
                userId = (case items st ''user_id'' of Some s \<Rightarrow> s | None \<Rightarrow> [])\<rparr>"
  using assms
  by (simp add: CI_clearChat_def App_clearChat_def removeItem_def CI_loadHistory_def
      App_loadHistory_def getItem_def initialMessages_def App_greetingMessage_def
      App_setup_def)

theorem clearChat_resets_witness:
  "available (storage_with sample_history_text)
   \<and> state_of (CI_clearChat True
        ((CI_setup sample_time)\<lparr>messages := sample_history\<rparr>, storage_with sample_history_text))
      = ((CI_setup sample_time)\<lparr>messages := Arr (initialMessages sample_time)\<rparr>, empty_storage)
   \<and> CI_loadHistory sample_runtime (CI_setup sample_time, empty_storage) =
       Inr ((CI_setup sample_time)\<lparr>messages := Arr (initialMessages sample_time)\<rparr>)
   \<and> state_of (App_clearChat True sample_time
        (sample_app\<lparr>messages := sample_history\<rparr>, storage_with sample_history_text))
      = (sample_app, empty_storage)
   \<and> App_setup sample_time empty_storage = Inr sample_app
   \<and> App_loadHistory sample_runtime (sample_app, empty_storage) = Inr sample_app"
proof -
  have h1: "available (storage_with sample_history_text)"
    by (simp add: storage_with_def)
  have h2: "(items (storage_with sample_history_text))(''chat_history'' := None) = Map.empty"
    by (simp add: storage_with_def)
  have h3: "items (storage_with sample_history_text) ''user_id'' = None"
    by (simp add: storage_with_def)
  from clearChat_resets
    [OF h1, where rt = sample_runtime and now = sample_time and ?t1.0 = sample_time
       and a = "sample_app\<lparr>messages := sample_history\<rparr>" and a' = sample_app
       and c = "(CI_setup sample_time)\<lparr>messages := sample_history\<rparr>"
       and c' = "CI_setup sample_time"] h1 h2 h3
  show ?thesis
    by (simp add: storage_with_def empty_storage_def sample_app_def CI_setup_def
        initialMessages_def App_greetingMessage_def)
qed

text \<open>
  What the components persist. App.vue never holds an empty conversation: its refs start
  with the greeting, and every function keeps the conversation a non-empty array.
\<close>

lemma App_setup_nonEmpty:
  "App_setup t0 st = Inr a \<Longrightarrow> nonEmptyArray (messages a)"
  by (auto simp add: App_setup_def split: sum.splits)

lemma App_loadHistory_nonEmpty:
  "nonEmptyArray (messages a) \<Longrightarrow> App_loadHistory rt (a, st) = Inr a' \<Longrightarrow>
   nonEmptyArray (messages a')"
  by (auto simp add: App_loadHistory_def split: sum.splits option.splits if_splits)

lemma App_sendMessage_nonEmpty:
  "nonEmptyArray (messages a) \<Longrightarrow>
   nonEmptyArray (messages (fst (state_of (App_sendMessage now (a, st)))))"
  by (cases "messages a") (simp_all add: App_sendMessage_def Let_def)

lemma App_resume_nonEmpty:
  "nonEmptyArray (messages a) \<Longrightarrow>
   nonEmptyArray (messages (fst (state_of (App_resume rt now q f (a, st)))))"
  by (cases "messages a")
    (simp_all add: App_resume_def App_catch_def App_finally_def Let_def
      split: fetched.splits option.splits sum.splits)

lemma App_clearChat_nonEmpty:
  "nonEmptyArray (messages a) \<Longrightarrow>
   nonEmptyArray (messages (fst (state_of (App_clearChat confirmed now (a, st)))))"
  by (simp add: App_clearChat_def Let_def split: sum.splits)

text \<open>
  ChatInterface.vue saves after it has appended a message: when \<^verbatim>\<open>sendMessage\<close> gets
  to its \<^verbatim>\<open>await\<close>, and when its continuation returns, the persisted text is that of
  the conversation, a non-empty array.
\<close>

lemma CI_sendMessage_persists:
  "CI_sendMessage rt now w = Awaiting q w' \<Longrightarrow>
   nonEmptyArray (messages (fst w'))
   \<and> items (snd w') ''chat_history'' = Some (JSON_stringify rt (messages (fst w')))"
  by (cases w, cases "messages (fst w)")
    (auto simp add: CI_sendMessage_def Let_def CI_saveHistory_def setItem_def getItem_def
      split: if_splits sum.splits)

lemma CI_resume_persists:
  "CI_resume rt now f w = Returns w' \<Longrightarrow>
   nonEmptyArray (messages (fst w'))
   \<and> items (snd w') ''chat_history'' = Some (JSON_stringify rt (messages (fst w')))"
  by (cases w, cases "messages (fst w)")
    (auto simp add: CI_resume_def CI_catch_def CI_finally_def Let_def CI_saveHistory_def
      setItem_def split: if_splits sum.splits)



section \<open>A send whose query fails\<close>

lemma api_query_failure: "failure f \<Longrightarrow> \<exists>e. api_query f = Inl e"
  by (cases f) (auto split: option.splits)

text \<open>
  Claim C1, as amended. The claim has one policy for a failed query, the fixed apology
  with empty retrieval context. That is what ChatInterface.vue does; App.vue makes up an
  answer around the question, with retrieval context, and marks the service
  disconnected. In both, with storage working and the conversation an array: the call
  appends the user message and awaits; when the query has failed, exactly one assistant
  message is appended, the function returns without an exception, and \<open>loading\<close> is
  false again.
\<close>

theorem sendMessage_failure:
  assumes "available st"
    and "failure f"
    and "trim (inputText c) = text" and "trim (inputText a) = text" and "text \<noteq> []"
    and "\<not> loading c" and "\<not> loading a"
    and "messages c = Arr ms" and "messages a = Arr ms'"
  shows "CI_sendMessage rt now (c, st) =
           Awaiting text
             (c\<lparr>messages := Arr (ms @ [userMessage text now]), inputText := [], loading := True\<rparr>,
              st\<lparr>items := (items st)(''chat_history'' \<mapsto>
                     JSON_stringify rt (Arr (ms @ [userMessage text now])))\<rparr>)
         \<and> CI_resume rt now' f
             (c\<lparr>messages := Arr (ms @ [userMessage text now]), inputText := [], loading := True\<rparr>,
              st\<lparr>items := (items st)(''chat_history'' \<mapsto>
                     JSON_stringify rt (Arr (ms @ [userMessage text now])))\<rparr>) =
           Returns
             (c\<lparr>messages := Arr (ms @ [userMessage text now, errorMessage now']),
                inputText := [], loading := False\<rparr>,
              st\<lparr>items := (items st)(''chat_history'' \<mapsto>
                     JSON_stringify rt (Arr (ms @ [userMessage text now, errorMessage now'])))\<rparr>)
         \<and> App_sendMessage now (a, st) =
           Awaiting text
             (a\<lparr>messages := Arr (ms' @ [userMessage text now]), inputText := [], loading := True\<rparr>,
              st)
         \<and> App_resume rt now' text f
             (a\<lparr>messages := Arr (ms' @ [userMessage text now]), inputText := [], loading := True\<rparr>,
              st) =
           Returns
             (a\<lparr>messages := Arr (ms' @ [userMessage text now, mockMessage text now']),
                inputText := [], loading := False, connectionStatus := Disconnected\<rparr>,
              st\<lparr>items := (items st)(''chat_history'' \<mapsto>
                     JSON_stringify rt (Arr (ms' @ [userMessage text now, mockMessage text now'])))\<rparr>)
         \<and> property (errorMessage now') ''role'' = Str (asc ''assistant'')
         \<and> property (errorMessage now') ''content'' = Str apology
         \<and> property (errorMessage now') ''retrievalContext'' =
             Obj [(''knowledge'', Arr []), (''memory'', Arr []), (''subQuestions'', Arr [])]
         \<and> property (mockMessage text now') ''role'' = Str (asc ''assistant'')"
proof -
  obtain e where e: "api_query f = Inl e"
    using api_query_failure [OF assms(2)] by blast
  have ci1: "CI_sendMessage rt now (c, st) =
           Awaiting text
             (c\<lparr>messages := Arr (ms @ [userMessage text now]), inputText := [], loading := True\<rparr>,
              st\<lparr>items := (items st)(''chat_history'' \<mapsto>
                     JSON_stringify rt (Arr (ms @ [userMessage text now])))\<rparr>)"
    using assms by (simp add: CI_sendMessage_def CI_saveHistory_def setItem_def getItem_def)
  have ci2: "CI_resume rt now' f
             (c\<lparr>messages := Arr (ms @ [userMessage text now]), inputText := [], loading := True\<rparr>,
              st\<lparr>items := (items st)(''chat_history'' \<mapsto>
                     JSON_stringify rt (Arr (ms @ [userMessage text now])))\<rparr>) =
           Returns
             (c\<lparr>messages := Arr (ms @ [userMessage text now, errorMessage now']),
                inputText := [], loading := False\<rparr>,
              st\<lparr>items := (items st)(''chat_history'' \<mapsto>
                     JSON_stringify rt (Arr (ms @ [userMessage text now, errorMessage now'])))\<rparr>)"
    using assms e
    by (simp add: CI_resume_def CI_catch_def CI_finally_def CI_saveHistory_def setItem_def)
  have app1: "App_sendMessage now (a, st) =
           Awaiting text
             (a\<lparr>messages := Arr (ms' @ [userMessage text now]), inputText := [], loading := True\<rparr>,
              st)"
    using assms by (simp add: App_sendMessage_def)
  have app2: "App_resume rt now' text f
             (a\<lparr>messages := Arr (ms' @ [userMessage text now]), inputText := [], loading := True\<rparr>,
              st) =
           Returns
             (a\<lparr>messages := Arr (ms' @ [userMessage text now, mockMessage text now']),
                inputText := [], loading := False, connectionStatus := Disconnected\<rparr>,
              st\<lparr>items := (items st)(''chat_history'' \<mapsto>
                     JSON_stringify rt (Arr (ms' @ [userMessage text now, mockMessage text now'])))\<rparr>)"
    using assms
    by (cases f)
      (auto simp add: App_resume_def App_catch_def App_finally_def App_saveHistory_def setItem_def)
  have replies: "property (errorMessage now') ''role'' = Str (asc ''assistant'')
         \<and> property (errorMessage now') ''content'' = Str apology
         \<and> property (errorMessage now') ''retrievalContext'' =
             Obj [(''knowledge'', Arr []), (''memory'', Arr []), (''subQuestions'', Arr [])]
         \<and> property (mockMessage text now') ''role'' = Str (asc ''assistant'')"
    by (simp add: errorMessage_def mockMessage_def)
  from ci1 ci2 app1 app2 replies show ?thesis by simp
qed

theorem sendMessage_failure_witness:
  "available empty_storage \<and> failure Failed \<and> trim (asc '' x '') = asc ''x''
   \<and> CI_sendMessage sample_runtime sample_time
       ((CI_setup sample_time)\<lparr>messages := Arr (initialMessages sample_time),
          inputText := asc '' x ''\<rparr>, empty_storage) =
     Awaiting (asc ''x'')
       ((CI_setup sample_time)\<lparr>messages :=
            Arr (initialMessages sample_time @ [userMessage (asc ''x'') sample_time]),
          loading := True\<rparr>,
        storage_with (JSON_stringify sample_runtime
          (Arr (initialMessages sample_time @ [userMessage (asc ''x'') sample_time]))))
   \<and> CI_resume sample_runtime sample_time Failed
       ((CI_setup sample_time)\<lparr>messages :=
            Arr (initialMessages sample_time @ [userMessage (asc ''x'') sample_time]),
          loading := True\<rparr>,
        storage_with (JSON_stringify sample_runtime
          (Arr (initialMessages sample_time @ [userMessage (asc ''x'') sample_time])))) =
     Returns
       ((CI_setup sample_time)\<lparr>messages :=
            Arr (initialMessages sample_time @
                 [userMessage (asc ''x'') sample_time, errorMessage sample_time])\<rparr>,
        storage_with (JSON_stringify sample_runtime
          (Arr (initialMessages sample_time @
                [userMessage (asc ''x'') sample_time, errorMessage sample_time]))))"
proof -
  have h1: "available empty_storage"
    by (simp add: empty_storage_def)
  have h2: "failure Failed"
    by simp
  have h3: "trim (asc '' x '') = asc ''x''"
    by (simp add: trim_def asc_def isWhiteSpace_def)
  have h4: "asc ''x'' \<noteq> []"
    by (simp add: asc_def)
  from sendMessage_failure
    [where st = empty_storage and f = Failed and ?text = "asc ''x''" and rt = sample_runtime
       and now = sample_time and now' = sample_time
       and c = "(CI_setup sample_time)\<lparr>messages := Arr (initialMessages sample_time),
                  inputText := asc '' x ''\<rparr>"
       and a = "sample_app\<lparr>inputText := asc '' x ''\<rparr>"
       and ms = "initialMessages sample_time" and ms' = "[App_greetingMessage sample_time]"]
    h1 h2 h3 h4
  show ?thesis
    by (simp add: CI_setup_def sample_app_def empty_storage_def storage_with_def)
qed

text \<open>
  The claim as stated fails in App.vue: after a failed query for the question
  \<^verbatim>\<open>x\<close>, the appended message is the made-up answer, whose content is not the
  apology and whose retrieval context is not empty.
\<close>

theorem sendMessage_failure_mock_counterexample:
  "messages (fst (state_of (App_resume sample_runtime sample_time (asc ''x'') Failed
      (sample_app\<lparr>messages :=
           Arr [App_greetingMessage sample_time, userMessage (asc ''x'') sample_time],
         loading := True\<rparr>, empty_storage)))) =
     Arr [App_greetingMessage sample_time, userMessage (asc ''x'') sample_time,
          mockMessage (asc ''x'') sample_time]
   \<and> property (mockMessage (asc ''x'') sample_time) ''content'' \<noteq> Str apology
   \<and> property (property (mockMessage (asc ''x'') sample_time) ''context'') ''knowledge''
       \<noteq> Arr []"
  by (simp add: App_resume_def App_catch_def App_finally_def App_saveHistory_def setItem_def
      empty_storage_def sample_app_def mockMessage_def mock_before_def apology_def)

section \<open>Storage that is denied\<close>

text \<open>
  Claim C4, as amended. The claim has every store operation fall back to memory without
  an error when storage is unavailable. The source has no such fallback: every access to
  \<^verbatim>\<open>localStorage\<close> is unguarded, so loading, saving, saving the user id and the
  read of the user id at setup raise to their caller, and so does the \<^verbatim>\<open>onMounted\<close>
  hook that would create the session id. What was changed in memory before the access
  stays: the generated user id, the reset conversation, the appended message.
  \<^verbatim>\<open>sendMessage\<close> of ChatInterface.vue ends before any request is sent;
  \<^verbatim>\<open>sendMessage\<close> of App.vue appends its reply, clears \<open>loading\<close> and then ends with
  the exception.
\<close>

theorem storage_denied_raises:
  assumes "\<not> available st"
  shows "CI_loadHistory rt (c, st) = Inl SecurityError
         \<and> CI_saveHistory rt (c, st) = Inl SecurityError
         \<and> App_loadHistory rt (a, st) = Inl SecurityError
         \<and> App_saveHistory rt (a, st) = Inl SecurityError
         \<and> App_saveUserId (a, st) = Inl SecurityError
         \<and> HV_saveUserId (h, st) = Inl SecurityError
         \<and> App_setup t0 st = Inl SecurityError
         \<and> HV_setup st = Inl SecurityError
         \<and> CI_onMounted rt ms' (c, st) = Throws SecurityError (c, st)
         \<and> App_generateUserId rnd (a, st) =
             Throws SecurityError (a\<lparr>userId := asc ''user_'' @ rnd\<rparr>, st)
         \<and> HV_generateUserId rnd (h, st) =
             Throws SecurityError (h\<lparr>hv_userId := asc ''user_'' @ rnd\<rparr>, st)
         \<and> CI_clearChat True (c, st) =
             Throws SecurityError (c\<lparr>messages := Arr (initialMessages (created c))\<rparr>, st)
         \<and> App_clearChat True now (a, st) =
             Throws SecurityError (a\<lparr>messages := Arr [App_greetingMessage now]\<rparr>, st)
         \<and> CI_sendMessage rt now
               (c\<lparr>messages := Arr ms, inputText := asc ''x'', loading := False\<rparr>, st) =
             Throws SecurityError
               (c\<lparr>messages := Arr (ms @ [userMessage (asc ''x'') now]), inputText := [],
                  loading := False\<rparr>, st)
         \<and> App_resume rt now text Failed (a\<lparr>messages := Arr ms\<rparr>, st) =
             Throws SecurityError
               (a\<lparr>messages := Arr (ms @ [mockMessage text now]), loading := False,
                  connectionStatus := Disconnected\<rparr>, st)"
proof -
  have trim_x: "trim (asc ''x'') = asc ''x''" "asc ''x'' \<noteq> []"
    by (simp_all add: trim_def asc_def isWhiteSpace_def)
  have loads: "CI_loadHistory rt (c, st) = Inl SecurityError
         \<and> App_loadHistory rt (a, st) = Inl SecurityError
         \<and> App_setup t0 st = Inl SecurityError
         \<and> HV_setup st = Inl SecurityError
         \<and> CI_onMounted rt ms' (c, st) = Throws SecurityError (c, st)"
    using assms
    by (simp add: CI_loadHistory_def App_loadHistory_def App_setup_def HV_setup_def getItem_def
        CI_onMounted_def)
  have saves: "CI_saveHistory rt (c, st) = Inl SecurityError
         \<and> App_saveHistory rt (a, st) = Inl SecurityError
         \<and> App_saveUserId (a, st) = Inl SecurityError
         \<and> HV_saveUserId (h, st) = Inl SecurityError"
    using assms
    by (simp add: CI_saveHistory_def App_saveHistory_def App_saveUserId_def HV_saveUserId_def
        setItem_def)
  have ids: "App_generateUserId rnd (a, st) =
             Throws SecurityError (a\<lparr>userId := asc ''user_'' @ rnd\<rparr>, st)
         \<and> HV_generateUserId rnd (h, st) =
             Throws SecurityError (h\<lparr>hv_userId := asc ''user_'' @ rnd\<rparr>, st)"
    using assms
    by (simp add: App_generateUserId_def HV_generateUserId_def App_saveUserId_def
        HV_saveUserId_def setItem_def)
  have clears: "CI_clearChat True (c, st) =
             Throws SecurityError (c\<lparr>messages := Arr (initialMessages (created c))\<rparr>, st)
         \<and> App_clearChat True now (a, st) =
             Throws SecurityError (a\<lparr>messages := Arr [App_greetingMessage now]\<rparr>, st)"
    using assms by (simp add: CI_clearChat_def App_clearChat_def removeItem_def)
  have sends: "CI_sendMessage rt now
               (c\<lparr>messages := Arr ms, inputText := asc ''x'', loading := False\<rparr>, st) =
             Throws SecurityError
               (c\<lparr>messages := Arr (ms @ [userMessage (asc ''x'') now]), inputText := [],
                  loading := False\<rparr>, st)
         \<and> App_resume rt now text Failed (a\<lparr>messages := Arr ms\<rparr>, st) =
             Throws SecurityError
               (a\<lparr>messages := Arr (ms @ [mockMessage text now]), loading := False,
                  connectionStatus := Disconnected\<rparr>, st)"
    using assms trim_x
    by (simp add: CI_sendMessage_def CI_saveHistory_def App_resume_def App_catch_def
        App_finally_def App_saveHistory_def setItem_def)
  from loads saves ids clears sends show ?thesis by simp
qed

theorem storage_denied_raises_witness:
  "\<not> available denied_storage
   \<and> CI_loadHistory sample_runtime (CI_setup sample_time, denied_storage) = Inl SecurityError
   \<and> App_generateUserId (asc ''k3j9x2m1q'') (sample_app, denied_storage) =
       Throws SecurityError (sample_app\<lparr>userId := asc ''user_k3j9x2m1q''\<rparr>, denied_storage)
   \<and> CI_sendMessage sample_runtime sample_time
       ((CI_setup sample_time)\<lparr>messages := Arr (initialMessages sample_time),
          inputText := asc ''x''\<rparr>, denied_storage) =
     Throws SecurityError
       ((CI_setup sample_time)\<lparr>messages :=
          Arr (initialMessages sample_time @ [userMessage (asc ''x'') sample_time])\<rparr>,
        denied_storage)"
proof -
  have h1: "\<not> available denied_storage"
    by (simp add: denied_storage_def)
  from storage_denied_raises
    [OF h1, where rt = sample_runtime and c = "CI_setup sample_time" and a = sample_app
       and rnd = "asc ''k3j9x2m1q''" and now = sample_time and ms = "initialMessages sample_time"]
    h1
  show ?thesis
    by (simp add: CI_setup_def asc_def)
qed

text \<open>
  The claim as stated fails at the two operations it cites: with storage denied,
  \<^verbatim>\<open>saveHistory\<close> of ChatInterface.vue and \<^verbatim>\<open>saveUserId\<close> of HomeView.vue raise.
\<close>

theorem storage_denied_counterexample:
  "CI_saveHistory sample_runtime (CI_setup sample_time, denied_storage) = Inl SecurityError
   \<and> HV_saveUserId (\<lparr>hv_userId = asc ''user_k3j9x2m1q'', systemStatus = Checking\<rparr>,
        denied_storage) = Inl SecurityError"
  by (simp add: CI_saveHistory_def HV_saveUserId_def setItem_def denied_storage_def)

section \<open>The guard, the event loop and the batch runners\<close>

lemma App_finally_idle: "\<not> loading (fst (state_of (App_finally rt p w)))"
  by (cases w) (simp add: App_finally_def Let_def split: sum.splits option.splits)

lemma App_catch_idle: "\<not> loading (fst (state_of (App_catch rt now q w)))"
  by (cases w) (simp add: App_catch_def App_finally_idle split: sum.splits)

lemma App_resume_idle: "\<not> loading (fst (state_of (App_resume rt now q f w)))"
  by (cases w)
    (simp add: App_resume_def App_catch_idle App_finally_idle
      split: sum.splits option.splits fetched.splits)

lemma App_sendMessage_busy:
  "App_sendMessage now w = Awaiting q w' \<Longrightarrow> loading (fst w')"
  by (cases w)
    (auto simp add: App_sendMessage_def Let_def split: if_splits sum.splits)

lemma App_lawful: "lawful App_busy (App_controller rt)"
  unfolding lawful_def App_busy_def App_controller_def
  by (auto simp add: App_sendMessage_def Let_def App_resume_idle
      split: sum.splits prod.splits if_splits)

lemma CI_finally_idle: "\<not> loading (fst (state_of (CI_finally rt p w)))"
  by (cases w) (simp add: CI_finally_def Let_def split: sum.splits option.splits)

lemma CI_catch_idle: "\<not> loading (fst (state_of (CI_catch rt now w)))"
  by (cases w) (simp add: CI_catch_def CI_finally_idle split: sum.splits)

lemma CI_resume_idle: "\<not> loading (fst (state_of (CI_resume rt now f w)))"
  by (cases w)
    (simp add: CI_resume_def CI_catch_idle CI_finally_idle split: sum.splits)

lemma CI_catch_not_awaiting: "CI_catch rt now w \<noteq> Awaiting q w'"
  by (cases w) (simp add: CI_catch_def CI_finally_def Let_def split: sum.splits option.splits)

lemma CI_sendMessage_busy:
  "CI_sendMessage rt now w = Awaiting q w' \<Longrightarrow> loading (fst w')"
  by (cases w)
    (auto simp add: CI_sendMessage_def Let_def CI_catch_not_awaiting
      split: if_splits sum.splits option.splits)

lemma CI_sendMessage_idle:
  "\<not> loading (fst w) \<Longrightarrow> \<forall>q w'. CI_sendMessage rt now w \<noteq> Awaiting q w' \<Longrightarrow>
   \<not> loading (fst (state_of (CI_sendMessage rt now w)))"
  by (cases w)
    (auto simp add: CI_sendMessage_def Let_def CI_catch_idle
      split: if_splits sum.splits option.splits)

lemma CI_lawful: "lawful CI_busy (CI_controller rt)"
  unfolding lawful_def CI_busy_def CI_controller_def
  using CI_sendMessage_busy CI_sendMessage_idle
  by (auto simp add: CI_resume_idle CI_sendMessage_def split: prod.splits)

text \<open>The event loop keeps the world steady.\<close>

lemma deliver_steady:
  assumes "lawful busy ctl" and "length rs \<le> 1" and "(rs = []) = (\<not> busy w)"
    and "deliver stamp ctl T rs w = (rs', w')"
  shows "(rs' = []) = (\<not> busy w') \<and> length rs' \<le> 1"
proof (cases rs)
  case Nil
  with assms show ?thesis by simp
next
  case (Cons r rest)
  with assms(2) have rest: "rest = []" by simp
  show ?thesis
  proof (cases "reply r")
    case None
    with assms Cons rest show ?thesis by auto
  next
    case (Some tf)
    obtain t f where tf: "tf = (t, f)" by (cases tf)
    show ?thesis
    proof (cases "t \<le> T")
      case True
      from assms(1) have "\<not> busy (state_of (settle ctl (stamp t) (question r) f w))"
        by (simp add: lawful_def)
      with assms(4) Cons rest Some tf True show ?thesis by auto
    next
      case False
      with assms Cons rest Some tf show ?thesis by auto
    qed
  qed
qed

lemma advance_steady:
  assumes "lawful busy ctl" and "steady busy W"
  shows "steady busy (advance stamp ctl T W)"
proof -
  obtain rs' w' where d: "deliver stamp ctl T (inflight W) (page W) = (rs', w')"
    by (cases "deliver stamp ctl T (inflight W) (page W)")
  from assms(2) have "length (inflight W) \<le> 1" and "(inflight W = []) = (\<not> busy (page W))"
    and "peak W \<le> 1"
    by (simp_all add: steady_def)
  with deliver_steady [OF assms(1) _ _ d] d show ?thesis
    by (simp add: advance_def steady_def)
qed

lemma invoke_steady:
  assumes "lawful busy ctl" and "steady busy W"
  shows "steady busy (invoke net stamp ctl W)"
proof (cases "\<exists>q w'. submit ctl (stamp (clock W)) (page W) = Awaiting q w'")
  case True
  then obtain q w' where aw: "submit ctl (stamp (clock W)) (page W) = Awaiting q w'"
    by blast
  from assms(1) aw have idle: "\<not> busy (page W)" and busy: "busy w'"
    by (auto simp add: lawful_def)
  with assms(2) have "inflight W = []" and "peak W \<le> 1"
    by (simp_all add: steady_def)
  with aw busy show ?thesis
    by (simp add: invoke_def steady_def Let_def)
next
  case False
  show ?thesis
  proof (cases "busy (page W)")
    case True
    with assms(1) have "submit ctl (stamp (clock W)) (page W) = Ignored (page W)"
      by (simp add: lawful_def)
    with assms(2) show ?thesis
      by (simp add: invoke_def steady_def)
  next
    case idle: False
    with assms(1) False
    have "\<not> busy (state_of (submit ctl (stamp (clock W)) (page W)))"
      by (simp add: lawful_def)
    with assms(2) idle False show ?thesis
      by (cases "submit ctl (stamp (clock W)) (page W)") (simp_all add: invoke_def steady_def)
  qed
qed

lemma typeIn_steady:
  assumes "lawful busy ctl" and "steady busy W"
  shows "steady busy (W\<lparr>page := typeIn ctl q (page W)\<rparr>)"
  using assms by (simp add: steady_def lawful_def)

text \<open>What the event loop does to the clock and to the observed calls.\<close>

lemma clock_advance [simp]: "clock (advance stamp ctl T W) = T"
  by (simp add: advance_def split: prod.splits)

lemma calls_advance [simp]: "calls (advance stamp ctl T W) = calls W"
  by (simp add: advance_def split: prod.splits)

lemma clock_invoke [simp]: "clock (invoke net stamp ctl W) = clock W"
  by (simp add: invoke_def Let_def split: outcome.splits)

lemma times_invoke [simp]:
  "map fst (calls (invoke net stamp ctl W)) = map fst (calls W) @ [clock W]"
  by (simp add: invoke_def Let_def split: outcome.splits)

lemma shifted_times:
  "(c + a) # map (\<lambda>i. c + d + a + d * i) [0..<n] = map (\<lambda>i. c + a + d * i) [0..<Suc n]"
proof -
  have "[0..<Suc n] = 0 # map Suc [0..<n]"
    by (simp add: upt_conv_Cons map_Suc_upt del: upt_Suc)
  then show ?thesis
    by (simp add: comp_def algebra_simps del: upt_Suc)
qed

lemma sendNext_steady:
  "steady App_busy W \<Longrightarrow> steady App_busy (sendNext net stamp rt qs W)"
proof (induction qs arbitrary: W)
  case Nil
  then show ?case by simp
next
  case (Cons q qs)
  show ?case
    by (simp add: Let_def)
      (intro Cons.IH advance_steady invoke_steady typeIn_steady App_lawful Cons.prems)
qed

lemma sendNext_clock:
  "clock (sendNext net stamp rt qs W) = clock W + 2100 * length qs"
  by (induction qs arbitrary: W) (simp_all add: Let_def)

lemma sendNext_times:
  "map fst (calls (sendNext net stamp rt qs W)) =
     map fst (calls W) @ map (\<lambda>i. clock W + 100 + 2100 * i) [0..<length qs]"
proof (induction qs arbitrary: W)
  case Nil
  then show ?case by simp
next
  case (Cons q qs)
  have "map fst (calls (sendNext net stamp rt (q # qs) W)) =
          map fst (calls W) @
            ((clock W + 100) # map (\<lambda>i. clock W + 2100 + 100 + 2100 * i) [0..<length qs])"
    by (simp add: Let_def Cons.IH add.assoc del: upt_Suc)
  then show ?case
    by (simp only: shifted_times list.size length_Cons)  simp
qed

lemma exampleTimers_steady:
  "steady CI_busy W \<Longrightarrow> steady CI_busy (exampleTimers net stamp rt T0 i qs W)"
proof (induction qs arbitrary: W i)
  case Nil
  then show ?case by simp
next
  case (Cons q qs)
  show ?case
    by (simp add: sendExampleQuestion_def)
      (intro Cons.IH advance_steady invoke_steady typeIn_steady CI_lawful Cons.prems)
qed

lemma exampleTimers_times:
  "map fst (calls (exampleTimers net stamp rt T0 i qs W)) =
     map fst (calls W) @ map (\<lambda>j. T0 + (i + j) * 2000) [0..<length qs]"
proof (induction qs arbitrary: W i)
  case Nil
  then show ?case by simp
next
  case (Cons q qs)
  have "[0..<Suc (length qs)] = 0 # map Suc [0..<length qs]"
    by (simp add: upt_conv_Cons map_Suc_upt del: upt_Suc)
  then show ?case
    by (simp add: Cons.IH sendExampleQuestion_def comp_def del: upt_Suc)
qed

lemma sendNext_step:
  assumes "advance stamp (App_controller rt) (clock W + 100)
             (W\<lparr>page := typeIn (App_controller rt) q (page W)\<rparr>) = W1"
    and "invoke net stamp (App_controller rt) W1 = W2"
    and "advance stamp (App_controller rt) (clock W2 + 2000) W2 = W3"
  shows "sendNext net stamp rt (q # qs) W = sendNext net stamp rt qs W3"
proof -
  from assms have W3: "W3 = advance stamp (App_controller rt) (clock W2 + 2000) W2"
    and W2: "W2 = invoke net stamp (App_controller rt) W1"
    and W1: "W1 = advance stamp (App_controller rt) (clock W + 100)
             (W\<lparr>page := typeIn (App_controller rt) q (page W)\<rparr>)"
    by simp_all
  show ?thesis
    unfolding W3 W2 W1 by (simp add: Let_def)
qed

text \<open>The two runners with the lists of the source: seven and five items.\<close>

lemma loadExamples_times:
  "map fst (calls (loadExamples net stamp rt W)) =
     map fst (calls W) @
       [clock W + 100, clock W + 2200, clock W + 4300, clock W + 6400, clock W + 8500,
        clock W + 10600, clock W + 12700]"
  by (simp only: loadExamples_def sendNext_times)
    (simp add: App_exampleQuestions_def upt_rec)

lemma loadExampleQuestions_times:
  "map fst (calls (loadExampleQuestions net stamp rt W)) =
     map fst (calls W) @
       [clock W, clock W + 2000, clock W + 4000, clock W + 6000, clock W + 8000]"
  by (simp only: loadExampleQuestions_def exampleTimers_times)
    (simp add: HV_exampleQuestions_def upt_rec)

text \<open>
  Claim C5, as amended. The claim has the runner wait until the controller is idle
  before it submits an item. Neither runner waits for anything but the clock:
  \<^verbatim>\<open>loadExamples\<close> of App.vue calls \<^verbatim>\<open>sendMessage\<close> 100 ms after it has filled the
  input box and comes back 2000 ms after the call, so the calls are 2100 ms apart;
  \<^verbatim>\<open>loadExampleQuestions\<close> of HomeView.vue calls it at \<open>i * 2000\<close> ms for item \<open>i\<close>.
  There is one call per item and the run ends after the last. A call that comes while a
  request is in flight is turned away by the guard of \<^verbatim>\<open>sendMessage\<close>: that item is
  dropped, and never are two requests in flight at once.
\<close>

theorem batch_runner_paced:
  assumes "steady App_busy W" and "steady CI_busy V"
  shows "map fst (calls (sendNext net stamp rt qs W)) =
           map fst (calls W) @ map (\<lambda>i. clock W + 100 + 2100 * i) [0..<length qs]
         \<and> clock (sendNext net stamp rt qs W) = clock W + 2100 * length qs
         \<and> peak (sendNext net stamp rt qs W) \<le> 1
         \<and> map fst (calls (exampleTimers net stamp rt T0 0 qs V)) =
             map fst (calls V) @ map (\<lambda>i. T0 + i * 2000) [0..<length qs]
         \<and> peak (exampleTimers net stamp rt T0 0 qs V) \<le> 1
         \<and> (loading (fst (page W)) \<longrightarrow>
              invoke net stamp (App_controller rt) W =
              W\<lparr>calls := calls W @ [(clock W, False)]\<rparr>)
         \<and> (loading (fst (page V)) \<longrightarrow>
              invoke net stamp (CI_controller rt) V =
              V\<lparr>calls := calls V @ [(clock V, False)]\<rparr>)"
proof -
  have app: "peak (sendNext net stamp rt qs W) \<le> 1"
    using sendNext_steady [OF assms(1)] by (simp add: steady_def)
  have hv: "peak (exampleTimers net stamp rt T0 0 qs V) \<le> 1"
    using exampleTimers_steady [OF assms(2)] by (simp add: steady_def)
  have hv_times: "map fst (calls (exampleTimers net stamp rt T0 0 qs V)) =
             map fst (calls V) @ map (\<lambda>i. T0 + i * 2000) [0..<length qs]"
    using exampleTimers_times [of net stamp rt T0 0 qs V] by simp
  have app_guard: "loading (fst (page W)) \<longrightarrow>
              invoke net stamp (App_controller rt) W =
              W\<lparr>calls := calls W @ [(clock W, False)]\<rparr>"
    by (cases "page W")
      (simp add: invoke_def App_controller_def App_sendMessage_def)
  have hv_guard: "loading (fst (page V)) \<longrightarrow>
              invoke net stamp (CI_controller rt) V =
              V\<lparr>calls := calls V @ [(clock V, False)]\<rparr>"
    by (cases "page V")
      (simp add: invoke_def CI_controller_def CI_sendMessage_def)
  from app hv hv_times app_guard hv_guard sendNext_times sendNext_clock
  show ?thesis by blast
qed

theorem batch_runner_paced_witness:
  "steady App_busy (opened (sample_app, empty_storage))
   \<and> steady CI_busy (opened (CI_setup sample_time, empty_storage))
   \<and> map fst (calls (sendNext slow sample_clock sample_runtime [asc ''a'', asc ''b'']
         (opened (sample_app, empty_storage)))) = [100, 2200]
   \<and> clock (sendNext slow sample_clock sample_runtime [asc ''a'', asc ''b'']
         (opened (sample_app, empty_storage))) = 4200
   \<and> peak (sendNext slow sample_clock sample_runtime [asc ''a'', asc ''b'']
         (opened (sample_app, empty_storage))) \<le> 1
   \<and> map fst (calls (exampleTimers slow sample_clock sample_runtime 0 0 [asc ''a'', asc ''b'']
         (opened (CI_setup sample_time, empty_storage)))) = [0, 2000]"
proof -
  have h1: "steady App_busy (opened (sample_app, empty_storage))"
    by (simp add: steady_def opened_def App_busy_def sample_app_def)
  have h2: "steady CI_busy (opened (CI_setup sample_time, empty_storage))"
    by (simp add: steady_def opened_def CI_busy_def CI_setup_def)
  have h3: "[0..<length [asc ''a'', asc ''b'']] = [0, 1]"
    by (simp add: upt_rec)
  from batch_runner_paced
    [OF h1 h2, where net = slow and stamp = sample_clock and rt = sample_runtime
       and qs = "[asc ''a'', asc ''b'']" and ?T0.0 = 0] h1 h2 h3
  show ?thesis
    by (simp add: opened_def)
qed

text \<open>
  The claim as stated fails when a reply takes longer than the pause. With a network that
  fails each request after five seconds and the two items \<^verbatim>\<open>a\<close> and \<^verbatim>\<open>b\<close>, the runner
  of App.vue calls \<^verbatim>\<open>sendMessage\<close> for \<^verbatim>\<open>b\<close> at 2200 ms, while the request for
  \<^verbatim>\<open>a\<close> is in flight: the call sends nothing, and \<^verbatim>\<open>b\<close> never reaches the
  conversation.
\<close>

theorem batch_runner_drops_counterexample:
  "calls (sendNext slow sample_clock sample_runtime [asc ''a'', asc ''b'']
      (opened (sample_app, empty_storage))) = [(100, True), (2200, False)]
   \<and> messages (fst (page (sendNext slow sample_clock sample_runtime [asc ''a'', asc ''b'']
      (opened (sample_app, empty_storage))))) =
     Arr [App_greetingMessage sample_time, userMessage (asc ''a'') sample_time]
   \<and> loading (fst (page (sendNext slow sample_clock sample_runtime [asc ''a'', asc ''b'']
      (opened (sample_app, empty_storage)))))"
proof -
  let ?ctl = "App_controller sample_runtime"
  let ?W0 = "opened (sample_app, empty_storage)"
  let ?sent = "sample_app\<lparr>messages :=
      Arr [App_greetingMessage sample_time, userMessage (asc ''a'') sample_time],
      loading := True\<rparr>"
  let ?A1 = "\<lparr>page = (sample_app\<lparr>inputText := asc ''a''\<rparr>, empty_storage), clock = 100,
      inflight = [], peak = 0, calls = []\<rparr>"
  let ?A2 = "\<lparr>page = (?sent, empty_storage), clock = 100,
      inflight = [Request (asc ''a'') (Some (5100, Failed))], peak = 1,
      calls = [(100, True)]\<rparr>"
  let ?A3 = "\<lparr>page = (?sent, empty_storage), clock = 2100,
      inflight = [Request (asc ''a'') (Some (5100, Failed))], peak = 1,
      calls = [(100, True)]\<rparr>"
  let ?B1 = "\<lparr>page = (?sent\<lparr>inputText := asc ''b''\<rparr>, empty_storage), clock = 2200,
      inflight = [Request (asc ''a'') (Some (5100, Failed))], peak = 1,
      calls = [(100, True)]\<rparr>"
  let ?B2 = "\<lparr>page = (?sent\<lparr>inputText := asc ''b''\<rparr>, empty_storage), clock = 2200,
      inflight = [Request (asc ''a'') (Some (5100, Failed))], peak = 1,
      calls = [(100, True), (2200, False)]\<rparr>"
  let ?B3 = "\<lparr>page = (?sent\<lparr>inputText := asc ''b''\<rparr>, empty_storage), clock = 4200,
      inflight = [Request (asc ''a'') (Some (5100, Failed))], peak = 1,
      calls = [(100, True), (2200, False)]\<rparr>"
  have a1: "advance sample_clock ?ctl (clock ?W0 + 100)
      (?W0\<lparr>page := typeIn ?ctl (asc ''a'') (page ?W0)\<rparr>) = ?A1"
    by (simp add: opened_def advance_def App_controller_def)
  have a2: "invoke slow sample_clock ?ctl ?A1 = ?A2"
    by (simp add: invoke_def App_controller_def App_sendMessage_def trim_def asc_def
        isWhiteSpace_def slow_def sample_clock_def sample_app_def Let_def)
  have a3: "advance sample_clock ?ctl (clock ?A2 + 2000) ?A2 = ?A3"
    by (simp add: advance_def)
  have b1: "advance sample_clock ?ctl (clock ?A3 + 100)
      (?A3\<lparr>page := typeIn ?ctl (asc ''b'') (page ?A3)\<rparr>) = ?B1"
    by (simp add: advance_def App_controller_def)
  have b2: "invoke slow sample_clock ?ctl ?B1 = ?B2"
    by (simp add: invoke_def App_controller_def App_sendMessage_def)
  have b3: "advance sample_clock ?ctl (clock ?B2 + 2000) ?B2 = ?B3"
    by (simp add: advance_def)
  have "sendNext slow sample_clock sample_runtime [asc ''a'', asc ''b''] ?W0 =
          sendNext slow sample_clock sample_runtime [asc ''b''] ?A3"
    by (rule sendNext_step [OF a1 a2 a3])
  also have "\<dots> = sendNext slow sample_clock sample_runtime [] ?B3"
    by (rule sendNext_step [OF b1 b2 b3])
  finally have run: "sendNext slow sample_clock sample_runtime [asc ''a'', asc ''b''] ?W0 = ?B3"
    by simp
  show ?thesis
    unfolding run by simp
qed

section \<open>How long a send stays pending\<close>

text \<open>
  Claim C3, as amended. The claim has the wait for a reply bounded by a timeout whose
  expiry counts as a failure. The source sets no timeout: \<^verbatim>\<open>fetch\<close> is awaited as it
  is, and no timer is started. A call that sends a request leaves \<open>loading\<close> true.
  While the request has not settled, the passing of time changes nothing, so \<open>loading\<close>
  stays true; if the request never settles, that is for good. \<open>loading\<close> is false
  again as soon as the request has settled, whatever it settled with.
\<close>

theorem pending_until_settled:
  "(App_sendMessage now w = Awaiting q w' \<longrightarrow> loading (fst w'))
   \<and> (CI_sendMessage rt now v = Awaiting q v' \<longrightarrow> loading (fst v'))
   \<and> (inflight W = [Request q None] \<longrightarrow>
      advance stamp (App_controller rt) T W = W\<lparr>clock := T\<rparr>)
   \<and> (inflight W = [Request q (Some (t, f))] \<and> T < t \<longrightarrow>
      advance stamp (App_controller rt) T W = W\<lparr>clock := T\<rparr>)
   \<and> (inflight W = [Request q (Some (t, f))] \<and> t \<le> T \<longrightarrow>
      inflight (advance stamp (App_controller rt) T W) = []
      \<and> \<not> loading (fst (page (advance stamp (App_controller rt) T W))))
   \<and> (inflight V = [Request q None] \<longrightarrow>
      advance stamp (CI_controller rt) T V = V\<lparr>clock := T\<rparr>)
   \<and> (inflight V = [Request q (Some (t, f))] \<and> T < t \<longrightarrow>
      advance stamp (CI_controller rt) T V = V\<lparr>clock := T\<rparr>)
   \<and> (inflight V = [Request q (Some (t, f))] \<and> t \<le> T \<longrightarrow>
      inflight (advance stamp (CI_controller rt) T V) = []
      \<and> \<not> loading (fst (page (advance stamp (CI_controller rt) T V))))"
  using App_sendMessage_busy [of now w q w'] CI_sendMessage_busy [of rt now v q v']
  by (simp add: advance_def App_controller_def CI_controller_def App_resume_idle
      CI_resume_idle)

theorem pending_until_settled_witness:
  "inflight (invoke silent sample_clock (CI_controller sample_runtime)
       (opened ((CI_setup sample_time)\<lparr>messages := Arr (initialMessages sample_time),
          inputText := asc ''x''\<rparr>, empty_storage))) = [Request (asc ''x'') None]
   \<and> loading (fst (page (advance sample_clock (CI_controller sample_runtime) 60000
       (invoke silent sample_clock (CI_controller sample_runtime)
         (opened ((CI_setup sample_time)\<lparr>messages := Arr (initialMessages sample_time),
            inputText := asc ''x''\<rparr>, empty_storage))))))
   \<and> inflight (invoke slow sample_clock (CI_controller sample_runtime)
       (opened ((CI_setup sample_time)\<lparr>messages := Arr (initialMessages sample_time),
          inputText := asc ''x''\<rparr>, empty_storage))) = [Request (asc ''x'') (Some (5000, Failed))]
   \<and> \<not> loading (fst (page (advance sample_clock (CI_controller sample_runtime) 60000
       (invoke slow sample_clock (CI_controller sample_runtime)
         (opened ((CI_setup sample_time)\<lparr>messages := Arr (initialMessages sample_time),
            inputText := asc ''x''\<rparr>, empty_storage))))))"
proof -
  have h1: "inflight (invoke silent sample_clock (CI_controller sample_runtime)
       (opened ((CI_setup sample_time)\<lparr>messages := Arr (initialMessages sample_time),
          inputText := asc ''x''\<rparr>, empty_storage))) = [Request (asc ''x'') None]"
    by (simp add: invoke_def opened_def CI_controller_def CI_sendMessage_def CI_setup_def
        CI_saveHistory_def setItem_def getItem_def empty_storage_def trim_def asc_def
        isWhiteSpace_def silent_def Let_def)
  have h2: "loading (fst (page (invoke silent sample_clock (CI_controller sample_runtime)
       (opened ((CI_setup sample_time)\<lparr>messages := Arr (initialMessages sample_time),
          inputText := asc ''x''\<rparr>, empty_storage)))))"
    by (simp add: invoke_def opened_def CI_controller_def CI_sendMessage_def CI_setup_def
        CI_saveHistory_def setItem_def getItem_def empty_storage_def trim_def asc_def
        isWhiteSpace_def silent_def Let_def)
  have h3: "inflight (invoke slow sample_clock (CI_controller sample_runtime)
       (opened ((CI_setup sample_time)\<lparr>messages := Arr (initialMessages sample_time),
          inputText := asc ''x''\<rparr>, empty_storage))) = [Request (asc ''x'') (Some (5000, Failed))]"
    by (simp add: invoke_def opened_def CI_controller_def CI_sendMessage_def CI_setup_def
        CI_saveHistory_def setItem_def getItem_def empty_storage_def trim_def asc_def
        isWhiteSpace_def slow_def Let_def)
  have h4: "(5000::nat) \<le> 60000"
    by simp
  from pending_until_settled
    [where V = "invoke silent sample_clock (CI_controller sample_runtime)
       (opened ((CI_setup sample_time)\<lparr>messages := Arr (initialMessages sample_time),
          inputText := asc ''x''\<rparr>, empty_storage))"
       and q = "asc ''x''" and stamp = sample_clock and rt = sample_runtime and T = 60000]
    pending_until_settled
    [where V = "invoke slow sample_clock (CI_controller sample_runtime)
       (opened ((CI_setup sample_time)\<lparr>messages := Arr (initialMessages sample_time),
          inputText := asc ''x''\<rparr>, empty_storage))"
       and q = "asc ''x''" and stamp = sample_clock and rt = sample_runtime and T = 60000
       and t = 5000 and f = Failed]
    h1 h2 h3 h4
  show ?thesis
    by simp
qed

text \<open>
  The claim as stated fails when the service never answers: a day after the question
  \<^verbatim>\<open>x\<close> was sent from ChatInterface.vue the request is still in flight and
  \<open>loading\<close> is still true.
\<close>

theorem pending_forever_counterexample:
  "loading (fst (page (advance sample_clock (CI_controller sample_runtime) 86400000
       (invoke silent sample_clock (CI_controller sample_runtime)
         (opened ((CI_setup sample_time)\<lparr>messages := Arr (initialMessages sample_time),
            inputText := asc ''x''\<rparr>, empty_storage))))))
   \<and> inflight (advance sample_clock (CI_controller sample_runtime) 86400000
       (invoke silent sample_clock (CI_controller sample_runtime)
         (opened ((CI_setup sample_time)\<lparr>messages := Arr (initialMessages sample_time),
            inputText := asc ''x''\<rparr>, empty_storage)))) = [Request (asc ''x'') None]"
  by (simp add: advance_def invoke_def opened_def CI_controller_def CI_sendMessage_def
      CI_setup_def CI_saveHistory_def setItem_def getItem_def empty_storage_def trim_def
      asc_def isWhiteSpace_def silent_def Let_def)

end
